theory Spec2Isabelle
  imports Complex_Main "HOL-Library.Char_ord" "HOL-Library.List_Lexorder" "HOL-Library.AList"
begin

section \<open>SongMatch: the matching service and its two caches\<close>

text \<open>
  The development embeds \<^verbatim>\<open>MatchingService\<close> (the second document of
  src/packages/backend/src/schemas/music.schemas.ts), \<^verbatim>\<open>MatchCacheService\<close> (the second
  document of src/unnamed/part_007) and \<^verbatim>\<open>SongCacheService\<close>
  (src/packages/backend/src/services/songCache.service.ts).

  Numbers. A TypeScript \<^verbatim>\<open>number\<close> is an IEEE double. The continuous features and every
  similarity are modelled as \<^typ>\<open>real\<close>: the arithmetic is that of the source, without
  rounding error. The categorical fields (key, mode, timeSignature) and the release year are
  \<^typ>\<open>int\<close>. The two places where the source can leave the finite numbers are written out:
  the division by \<^verbatim>\<open>Math.min(bpm1, bpm2)\<close> when that is zero, and the read of the
  distance matrix at a key outside 0..11.
\<close>

subsection \<open>Data model (types/music.types.ts)\<close>

record AudioFeatures =
  valence :: real
  energy :: real
  danceability :: real
  tempo :: real
  acousticness :: real
  key :: int
  mode :: int
  timeSignature :: int
  loudness :: real
  durationMs :: real
  genres :: "string list option"
  artist :: "string option"
  releaseYear :: "int option"

record ScoreComponent =
  similarity :: real
  weight :: real
  "values" :: "real list"
  label :: "string option"

record LayerResult =
  score :: real
  components :: "(string \<times> ScoreComponent) list"

record Breakdown =
  layer1 :: LayerResult
  layer2 :: LayerResult
  layer3 :: LayerResult

record Details =
  mood :: string
  rhythm :: string
  harmony :: string
  style :: string

record MatchExplanation =
  summary :: string
  strengths :: "string list"
  weaknesses :: "string list"
  details :: Details

record MatchResult =
  overallScore :: int
  confidence :: real
  breakdown :: Breakdown
  explanation :: MatchExplanation
  processingTime :: real
  algorithmVersion :: string

text \<open>
  What a call can end in instead of a finite result: a thrown \<^verbatim>\<open>TypeError\<close> (a property
  read on \<^verbatim>\<open>undefined\<close>), or a result that holds \<^verbatim>\<open>NaN\<close> (arithmetic on
  \<^verbatim>\<open>undefined\<close>); the reals have no such value, so the model stops there and says so.
\<close>

datatype js_error = TypeError | NotANumber

subsection \<open>JavaScript built-ins used by the services\<close>

text \<open>\<^verbatim>\<open>Math.round\<close>: the nearest integer, a half rounded towards plus infinity.\<close>

definition Math_round :: "real \<Rightarrow> int" where
  "Math_round x = \<lfloor>x + 1 / 2\<rfloor>"

text \<open>\<^verbatim>\<open>Array.prototype.indexOf\<close>: the first position of an element, -1 when absent.\<close>

fun indexOf :: "'a list \<Rightarrow> 'a \<Rightarrow> int" where
  "indexOf [] x = - 1"
| "indexOf (y # ys) x =
     (if y = x then 0 else (let r = indexOf ys x in if r < 0 then - 1 else r + 1))"

text \<open>An indexed read \<^verbatim>\<open>xs[i]\<close>: \<^verbatim>\<open>undefined\<close> (here \<open>None\<close>) outside the array.\<close>

definition js_index :: "'a list \<Rightarrow> int \<Rightarrow> 'a option" where
  "js_index xs i = (if 0 \<le> i \<and> i < int (length xs) then Some (xs ! nat i) else None)"

text \<open>\<^verbatim>\<open>String.prototype.toLowerCase\<close>, on the ASCII letters.\<close>

definition toLowerCase_char :: "char \<Rightarrow> char" where
  "toLowerCase_char c =
     (let n = (of_char c :: nat) in if 65 \<le> n \<and> n \<le> 90 then char_of (n + 32) else c)"

definition toLowerCase :: "string \<Rightarrow> string" where
  "toLowerCase s = map toLowerCase_char s"

text \<open>\<^verbatim>\<open>Array.prototype.join\<close>.\<close>

fun join :: "string \<Rightarrow> string list \<Rightarrow> string" where
  "join sep [] = []"
| "join sep [x] = x"
| "join sep (x # y # ys) = x @ sep @ join sep (y # ys)"

text \<open>
  The decimal rendering of an integer, as a template literal prints it (JavaScript switches
  to exponent notation from \<open>10\<^sup>2\<^sup>1\<close> on, far above any tempo).
\<close>

fun digits :: "nat \<Rightarrow> string" where
  "digits n =
     (if n < 10 then [char_of (48 + n)] else digits (n div 10) @ [char_of (48 + n mod 10)])"

declare digits.simps [simp del]

definition number_toString :: "int \<Rightarrow> string" where
  "number_toString i = (if i < 0 then CHR ''-'' # digits (nat (- i)) else digits (nat i))"

text \<open>Truthiness of an optional string and of an optional number.\<close>

definition truthy_string :: "string option \<Rightarrow> bool" where
  "truthy_string s = (case s of None \<Rightarrow> False | Some v \<Rightarrow> v \<noteq> [])"

definition truthy_number :: "int option \<Rightarrow> bool" where
  "truthy_number n = (case n of None \<Rightarrow> False | Some v \<Rightarrow> v \<noteq> 0)"

subsection \<open>MatchingService: similarity primitives\<close>

definition ALGORITHM_VERSION :: string where
  "ALGORITHM_VERSION = ''1.0''"

definition CIRCLE_OF_FIFTHS :: "int list" where
  "CIRCLE_OF_FIFTHS = [0, 7, 2, 9, 4, 11, 6, 1, 8, 3, 10, 5]"

definition buildCircleDistanceMatrix :: "int list list" where
  "buildCircleDistanceMatrix =
     map (\<lambda>i. map (\<lambda>j.
            let pos1 = indexOf CIRCLE_OF_FIFTHS i;
                pos2 = indexOf CIRCLE_OF_FIFTHS j;
                clockwise = \<bar>pos1 - pos2\<bar>;
                counterclockwise = 12 - clockwise
            in min clockwise counterclockwise) [0..11]) [0..11]"

definition CIRCLE_DISTANCE_MATRIX :: "int list list" where
  "CIRCLE_DISTANCE_MATRIX = buildCircleDistanceMatrix"

definition continuousSimilarity :: "real \<Rightarrow> real \<Rightarrow> real" where
  "continuousSimilarity v1 v2 = 1 - \<bar>v1 - v2\<bar>"

text \<open>
  When \<^verbatim>\<open>Math.min(bpm1, bpm2)\<close> is zero the ratio is \<^verbatim>\<open>Infinity\<close> or \<^verbatim>\<open>NaN\<close>, both
  comparisons of the octave test are false, and the linear branch is taken.
\<close>

definition tempoSimilarity :: "real \<Rightarrow> real \<Rightarrow> real" where
  "tempoSimilarity bpm1 bpm2 =
     (let octave =
            (if min bpm1 bpm2 = 0 then False
             else (let ratio = max bpm1 bpm2 / min bpm1 bpm2
                   in \<bar>ratio - 2.0\<bar> < 0.1 \<or> \<bar>ratio - 0.5\<bar> < 0.1))
      in if octave then 0.7
         else (let diff = \<bar>bpm1 - bpm2\<bar> in max 0 (1 - diff / 50)))"

text \<open>
  \<^verbatim>\<open>this.CIRCLE_DISTANCE_MATRIX[key1][key2]\<close>: with \<^verbatim>\<open>key1\<close> outside the matrix the row is
  \<^verbatim>\<open>undefined\<close> and the second read throws; with only \<^verbatim>\<open>key2\<close> outside, the distance is
  \<^verbatim>\<open>undefined\<close> and the similarity is \<^verbatim>\<open>NaN\<close>.
\<close>

definition keySimilarity :: "int \<Rightarrow> int \<Rightarrow> int \<Rightarrow> int \<Rightarrow> js_error + real" where
  "keySimilarity key1 mode1 key2 mode2 =
     (if key1 = key2 \<and> mode1 = mode2 then Inr 1.0
      else if key1 = key2 then Inr 0.7
      else (case js_index CIRCLE_DISTANCE_MATRIX key1 of
              None \<Rightarrow> Inl TypeError
            | Some row \<Rightarrow>
                (case js_index row key2 of
                   None \<Rightarrow> Inl NotANumber
                 | Some distance \<Rightarrow>
                     (let similarity = 1 - real_of_int distance / 6
                      in Inr (if mode1 = mode2 then similarity else similarity * 0.8)))))"

definition timeSignatureSimilarity :: "int \<Rightarrow> int \<Rightarrow> real" where
  "timeSignatureSimilarity ts1 ts2 =
     (if ts1 = ts2 then 1.0
      else if (ts1 = 6 \<and> ts2 = 3) \<or> (ts1 = 3 \<and> ts2 = 6) then 0.7
      else 0.3)"

definition loudnessSimilarity :: "real \<Rightarrow> real \<Rightarrow> real" where
  "loudnessSimilarity db1 db2 =
     (let norm1 = (db1 + 60) / 60; norm2 = (db2 + 60) / 60 in 1 - \<bar>norm1 - norm2\<bar>)"

definition durationSimilarity :: "real \<Rightarrow> real \<Rightarrow> real" where
  "durationSimilarity ms1 ms2 =
     (let diff = \<bar>ms1 - ms2\<bar> / 1000
      in if diff < 10 then 1.0
         else if diff < 30 then 0.8
         else if diff < 60 then 0.6
         else max 0 (1 - diff / 300))"

definition genreSimilarity :: "string list \<Rightarrow> string list \<Rightarrow> real" where
  "genreSimilarity genres1 genres2 =
     (if length genres1 = 0 \<or> length genres2 = 0 then 0.5
      else (let set1 = set (map toLowerCase genres1);
                set2 = set (map toLowerCase genres2);
                intersection = {x \<in> set1. x \<in> set2};
                union = set1 \<union> set2
            in real (card intersection) / real (card union)))"

definition artistSimilarity :: "string option \<Rightarrow> string option \<Rightarrow> real" where
  "artistSimilarity artist1 artist2 =
     (if \<not> truthy_string artist1 \<or> \<not> truthy_string artist2 then 0.5
      else if artist1 = artist2 then 1.0 else 0.0)"

definition eraSimilarity :: "int option \<Rightarrow> int option \<Rightarrow> real" where
  "eraSimilarity year1 year2 =
     (case (year1, year2) of
        (Some y1, Some y2) \<Rightarrow>
          (if y1 = 0 \<or> y2 = 0 then 0.5
           else (let decade1 = \<lfloor>real_of_int y1 / 10\<rfloor> * 10;
                     decade2 = \<lfloor>real_of_int y2 / 10\<rfloor> * 10
                 in if decade1 = decade2 then 1.0
                    else (let diff = real_of_int \<bar>decade1 - decade2\<bar> / 10
                          in max 0 (1 - diff / 5))))
      | _ \<Rightarrow> 0.5)"

subsection \<open>MatchingService: layers, confidence, explanation\<close>

text \<open>\<^verbatim>\<open>Object.values(components).reduce((sum, comp) => sum + comp.similarity * comp.weight, 0)\<close>\<close>

definition reduce_components :: "(string \<times> ScoreComponent) list \<Rightarrow> real" where
  "reduce_components comps =
     foldl (\<lambda>sum comp. sum + similarity comp * weight comp) 0 (map snd comps)"

definition calculateLayer1 :: "AudioFeatures \<Rightarrow> AudioFeatures \<Rightarrow> LayerResult" where
  "calculateLayer1 f1 f2 =
     (let comps =
        [(''valence'',
            \<lparr>similarity = continuousSimilarity (valence f1) (valence f2), weight = 0.15,
             values = [valence f1, valence f2], label = Some ''Mood/Positivity''\<rparr>),
         (''energy'',
            \<lparr>similarity = continuousSimilarity (energy f1) (energy f2), weight = 0.15,
             values = [energy f1, energy f2], label = Some ''Energy Level''\<rparr>),
         (''danceability'',
            \<lparr>similarity = continuousSimilarity (danceability f1) (danceability f2),
             weight = 0.12,
             values = [danceability f1, danceability f2], label = Some ''Danceability''\<rparr>),
         (''tempo'',
            \<lparr>similarity = tempoSimilarity (tempo f1) (tempo f2), weight = 0.1,
             values = [tempo f1, tempo f2], label = Some ''Tempo (BPM)''\<rparr>),
         (''acousticness'',
            \<lparr>similarity = continuousSimilarity (acousticness f1) (acousticness f2),
             weight = 0.08,
             values = [acousticness f1, acousticness f2], label = Some ''Acousticness''\<rparr>)]
      in \<lparr>score = reduce_components comps / 0.6, components = comps\<rparr>)"

definition calculateLayer2 :: "AudioFeatures \<Rightarrow> AudioFeatures \<Rightarrow> js_error + LayerResult" where
  "calculateLayer2 f1 f2 =
     (case keySimilarity (key f1) (mode f1) (key f2) (mode f2) of
        Inl e \<Rightarrow> Inl e
      | Inr keySim \<Rightarrow>
          (let comps =
             [(''keyMode'',
                 \<lparr>similarity = keySim, weight = 0.1,
                  values = [real_of_int (key f1) + real_of_int (mode f1) / 10,
                            real_of_int (key f2) + real_of_int (mode f2) / 10],
                  label = Some ''Key & Mode''\<rparr>),
              (''timeSignature'',
                 \<lparr>similarity = timeSignatureSimilarity (timeSignature f1) (timeSignature f2),
                  weight = 0.05,
                  values = [real_of_int (timeSignature f1), real_of_int (timeSignature f2)],
                  label = Some ''Time Signature''\<rparr>),
              (''loudness'',
                 \<lparr>similarity = loudnessSimilarity (loudness f1) (loudness f2), weight = 0.05,
                  values = [loudness f1, loudness f2], label = Some ''Loudness''\<rparr>),
              (''duration'',
                 \<lparr>similarity = durationSimilarity (durationMs f1) (durationMs f2),
                  weight = 0.05,
                  values = [durationMs f1, durationMs f2], label = Some ''Duration''\<rparr>)]
           in Inr \<lparr>score = reduce_components comps / 0.25, components = comps\<rparr>))"

text \<open>\<^verbatim>\<open>f.genres || []\<close> and \<^verbatim>\<open>f.releaseYear || 0\<close>.\<close>

definition genres_or_empty :: "AudioFeatures \<Rightarrow> string list" where
  "genres_or_empty f = (case genres f of None \<Rightarrow> [] | Some gs \<Rightarrow> gs)"

definition releaseYear_or_zero :: "AudioFeatures \<Rightarrow> int" where
  "releaseYear_or_zero f = (case releaseYear f of None \<Rightarrow> 0 | Some y \<Rightarrow> y)"

definition calculateLayer3 :: "AudioFeatures \<Rightarrow> AudioFeatures \<Rightarrow> LayerResult" where
  "calculateLayer3 f1 f2 =
     (let comps =
        [(''genre'',
            \<lparr>similarity = genreSimilarity (genres_or_empty f1) (genres_or_empty f2),
             weight = 0.08,
             values = [real (length (genres_or_empty f1)), real (length (genres_or_empty f2))],
             label = Some ''Genre Overlap''\<rparr>),
         (''artist'',
            \<lparr>similarity = artistSimilarity (artist f1) (artist f2), weight = 0.04,
             values = [if artist f1 = artist f2 then 1 else 0, 0],
             label = Some ''Artist Match''\<rparr>),
         (''era'',
            \<lparr>similarity = eraSimilarity (releaseYear f1) (releaseYear f2), weight = 0.03,
             values = [real_of_int (releaseYear_or_zero f1), real_of_int (releaseYear_or_zero f2)],
             label = Some ''Era/Decade''\<rparr>)]
      in \<lparr>score = reduce_components comps / 0.15, components = comps\<rparr>)"

text \<open>
  The counters of \<^verbatim>\<open>calculateConfidence\<close>, threaded as the source updates them. An array
  is truthy even when empty, so \<^verbatim>\<open>f.genres && f.genres.length > 0\<close> asks for a present,
  non-empty list; a string is truthy when non-empty and a number when non-zero.
\<close>

definition has_genres :: "AudioFeatures \<Rightarrow> bool" where
  "has_genres f = (case genres f of None \<Rightarrow> False | Some gs \<Rightarrow> length gs > 0)"

definition calculateConfidence :: "AudioFeatures \<Rightarrow> AudioFeatures \<Rightarrow> real" where
  "calculateConfidence f1 f2 =
     (let availableFeatures = (0::nat); totalFeatures = (0::nat);
          totalFeatures = totalFeatures + 5;
          availableFeatures = availableFeatures + 5;
          totalFeatures = totalFeatures + 4;
          availableFeatures = availableFeatures + 4;
          totalFeatures = totalFeatures + 3;
          availableFeatures =
            (if has_genres f1 \<and> has_genres f2 then availableFeatures + 1
             else availableFeatures);
          availableFeatures =
            (if truthy_string (artist f1) \<and> truthy_string (artist f2)
             then availableFeatures + 1 else availableFeatures);
          availableFeatures =
            (if truthy_number (releaseYear f1) \<and> truthy_number (releaseYear f2)
             then availableFeatures + 1 else availableFeatures)
      in real availableFeatures / real totalFeatures)"

definition getMoodDescription :: "real \<Rightarrow> real \<Rightarrow> string" where
  "getMoodDescription v e =
     (if v > 0.7 \<and> e > 0.7 then ''Upbeat and energetic''
      else if v > 0.7 \<and> e < 0.4 then ''Happy but calm''
      else if v < 0.4 \<and> e > 0.7 then ''Intense and dark''
      else if v < 0.4 \<and> e < 0.4 then ''Melancholic and subdued''
      else ''Moderate mood and energy'')"

definition getRhythmDescription :: "real \<Rightarrow> real \<Rightarrow> string" where
  "getRhythmDescription t d =
     (let speed = (if t < 90 then ''slow'' else if t < 120 then ''moderate'' else ''fast'');
          dance = (if d > 0.7 then ''very danceable''
                   else if d > 0.4 then ''somewhat danceable''
                   else ''not very danceable'')
      in speed @ '' tempo ('' @ number_toString (Math_round t) @ '' BPM), '' @ dance)"

definition getHarmonyDescription :: "int \<Rightarrow> int \<Rightarrow> string" where
  "getHarmonyDescription k m =
     (let keys = [''C'', ''C#'', ''D'', ''D#'', ''E'', ''F'', ''F#'', ''G'', ''G#'', ''A'',
                  ''A#'', ''B''];
          keyName = (case js_index keys k of None \<Rightarrow> ''undefined'' | Some n \<Rightarrow> n);
          modeName = (if m = 1 then ''Major'' else ''Minor'')
      in keyName @ '' '' @ modeName)"

text \<open>\<^verbatim>\<open>artist || d\<close> and \<^verbatim>\<open>artist ? ` by ${artist}` : ''\<close>.\<close>

definition string_or :: "string option \<Rightarrow> string \<Rightarrow> string" where
  "string_or a d = (case a of None \<Rightarrow> d | Some v \<Rightarrow> if v \<noteq> [] then v else d)"

definition by_artist :: "string option \<Rightarrow> string" where
  "by_artist a = (case a of None \<Rightarrow> [] | Some v \<Rightarrow> if v \<noteq> [] then '' by '' @ v else [])"

definition getStyleDescription :: "string list option \<Rightarrow> string option \<Rightarrow> string" where
  "getStyleDescription gs a =
     (case gs of
        None \<Rightarrow> string_or a ''Unknown style''
      | Some g \<Rightarrow>
          (if length g = 0 then string_or a ''Unknown style''
           else join '', '' (take 2 g) @ by_artist a))"

text \<open>
  \<^verbatim>\<open>generateExplanation\<close>. The five component reads
  (\<^verbatim>\<open>layers.layer1.components.valence.similarity\<close> and so on) throw on a missing component;
  the strengths and weaknesses are pushed in the order of the source.
\<close>

definition generateExplanation ::
  "AudioFeatures \<Rightarrow> AudioFeatures \<Rightarrow> Breakdown \<Rightarrow> int \<Rightarrow> js_error + MatchExplanation" where
  "generateExplanation f1 f2 layers overall =
     (case (map_of (components (layer1 layers)) ''valence'',
            map_of (components (layer1 layers)) ''energy'',
            map_of (components (layer1 layers)) ''tempo'',
            map_of (components (layer2 layers)) ''keyMode'',
            map_of (components (layer3 layers)) ''genre'') of
        (Some cv, Some ce, Some ct, Some ck, Some cg) \<Rightarrow>
          (let both_genres = (genres f1 \<noteq> None \<and> genres f2 \<noteq> None);
               strengths =
                 (if similarity cv > 0.8 then [''Very similar mood and emotional tone''] else []) @
                 (if similarity ce > 0.8 then [''Matching energy levels''] else []) @
                 (if similarity ct > 0.7 then [''Similar tempo and rhythm''] else []) @
                 (if similarity ck > 0.8
                  then [''Harmonically compatible (similar key/mode)''] else []) @
                 (if both_genres \<and> similarity cg > 0.5 then [''Shared musical genres'']
                  else []);
               weaknesses =
                 (if similarity cv > 0.8 then []
                  else if similarity cv < 0.5
                  then [''Different emotional vibes (one more positive/upbeat)''] else []) @
                 (if similarity ce > 0.8 then []
                  else if similarity ce < 0.5
                  then [''Contrasting energy (one more intense than the other)''] else []) @
                 (if similarity ct > 0.7 then []
                  else if similarity ct < 0.5 then [''Different tempo/speed''] else []) @
                 (if similarity ck > 0.8 then []
                  else if similarity ck < 0.5
                  then [''Different harmonic structure (key/mode mismatch)''] else []) @
                 (if both_genres \<and> similarity cg > 0.5 then []
                  else if both_genres \<and> similarity cg < 0.2 then [''Different genres'']
                  else []);
               summary =
                 (if overall \<ge> 80
                  then ''These songs are very similar and would pair well together!''
                  else if overall \<ge> 60
                  then ''These songs share some similarities but have notable differences.''
                  else if overall \<ge> 40
                  then ''These songs have some common elements but differ in key aspects.''
                  else ''These songs don't match well - they're quite different.'');
               moodDesc = getMoodDescription (valence f1) (energy f1);
               rhythmDesc = getRhythmDescription (tempo f1) (danceability f1);
               harmonyDesc = getHarmonyDescription (key f1) (mode f1);
               styleDesc = getStyleDescription (genres f1) (artist f1)
           in Inr \<lparr>summary = summary, strengths = strengths, weaknesses = weaknesses,
                   details = \<lparr>mood = moodDesc, rhythm = rhythmDesc, harmony = harmonyDesc,
                              style = styleDesc\<rparr>\<rparr>)
      | _ \<Rightarrow> Inl TypeError)"

text \<open>
  \<^verbatim>\<open>calculateMatch\<close>. The two readings of \<^verbatim>\<open>performance.now()\<close> are the parameters
  \<open>startTime\<close> and \<open>endTime\<close>.
\<close>

definition calculateMatch ::
  "real \<Rightarrow> real \<Rightarrow> AudioFeatures \<Rightarrow> AudioFeatures \<Rightarrow> js_error + MatchResult" where
  "calculateMatch startTime endTime features1 features2 =
     (let l1 = calculateLayer1 features1 features2 in
      case calculateLayer2 features1 features2 of
        Inl e \<Rightarrow> Inl e
      | Inr l2 \<Rightarrow>
          (let l3 = calculateLayer3 features1 features2;
               overall = Math_round ((score l1 * 0.6 + score l2 * 0.25 + score l3 * 0.15) * 100);
               conf = calculateConfidence features1 features2
           in case generateExplanation features1 features2
                     \<lparr>layer1 = l1, layer2 = l2, layer3 = l3\<rparr> overall of
                Inl e \<Rightarrow> Inl e
              | Inr expl \<Rightarrow>
                  Inr \<lparr>overallScore = overall, confidence = conf,
                       breakdown = \<lparr>layer1 = l1, layer2 = l2, layer3 = l3\<rparr>,
                       explanation = expl,
                       processingTime = real_of_int (Math_round ((endTime - startTime) * 100)) / 100,
                       algorithmVersion = ALGORITHM_VERSION\<rparr>))"

subsection \<open>The specification's vocabulary for the matching service\<close>

text \<open>
  The ranges the data model gives the mandatory fields of a feature vector: the four
  perceptual descriptors in [0,1], a positive tempo, a key in 0..11, a mode in {0,1}, a
  loudness in [-60,0] and a positive duration. The source checks none of them.
\<close>

definition valid_features :: "AudioFeatures \<Rightarrow> bool" where
  "valid_features f =
     (0 \<le> valence f \<and> valence f \<le> 1 \<and> 0 \<le> energy f \<and> energy f \<le> 1 \<and>
      0 \<le> danceability f \<and> danceability f \<le> 1 \<and>
      0 \<le> acousticness f \<and> acousticness f \<le> 1 \<and>
      0 < tempo f \<and> 0 \<le> key f \<and> key f \<le> 11 \<and> (mode f = 0 \<or> mode f = 1) \<and>
      - 60 \<le> loudness f \<and> loudness f \<le> 0 \<and> 0 < durationMs f)"

text \<open>
  The circle of fifths in the specification's words: the twelve keys in the order
  C, G, D, A, E, B, F#, C#, G#, D#, A#, F, a key number naming a pitch class as
  \<^verbatim>\<open>getHarmonyDescription\<close> does, and the distance of two keys the smaller of the steps
  clockwise and counter-clockwise from one to the other.
\<close>

definition pitch_names :: "string list" where
  "pitch_names =
     [''C'', ''C#'', ''D'', ''D#'', ''E'', ''F'', ''F#'', ''G'', ''G#'', ''A'', ''A#'', ''B'']"

definition fifths_order :: "string list" where
  "fifths_order =
     [''C'', ''G'', ''D'', ''A'', ''E'', ''B'', ''F#'', ''C#'', ''G#'', ''D#'', ''A#'', ''F'']"

definition fifths_position :: "int \<Rightarrow> int" where
  "fifths_position k = indexOf fifths_order (pitch_names ! nat k)"

definition fifths_steps :: "int \<Rightarrow> int \<Rightarrow> int" where
  "fifths_steps k1 k2 =
     (let clockwise = (fifths_position k2 - fifths_position k1) mod 12;
          counter = (fifths_position k1 - fifths_position k2) mod 12
      in min clockwise counter)"

text \<open>The feature vectors of matching.service.test.ts.\<close>

definition identicalSong :: AudioFeatures where
  "identicalSong =
     \<lparr>valence = 0.8, energy = 0.7, danceability = 0.75, tempo = 120, acousticness = 0.3,
      key = 0, mode = 1, timeSignature = 4, loudness = - 5, durationMs = 200000,
      genres = Some [''pop'', ''dance-pop''], artist = Some ''Test Artist'',
      releaseYear = Some 2020\<rparr>"

definition oppositeSong :: AudioFeatures where
  "oppositeSong =
     \<lparr>valence = 0.2, energy = 0.3, danceability = 0.25, tempo = 60, acousticness = 0.9,
      key = 6, mode = 0, timeSignature = 3, loudness = - 15, durationMs = 400000,
      genres = Some [''classical'', ''piano''], artist = Some ''Different Artist'',
      releaseYear = Some 1980\<rparr>"

definition minimal :: AudioFeatures where
  "minimal =
     \<lparr>valence = 0.5, energy = 0.5, danceability = 0.5, tempo = 100, acousticness = 0.5,
      key = 0, mode = 1, timeSignature = 4, loudness = - 10, durationMs = 200000,
      genres = None, artist = None, releaseYear = None\<rparr>"

text \<open>
  The first test song with a key outside 0..11. The type of the field is \<^verbatim>\<open>number\<close> and
  no function of the services checks it.
\<close>

definition keylessSong :: AudioFeatures where
  "keylessSong = identicalSong\<lparr>key := - 1\<rparr>"

subsection \<open>The collaborators of the caches: log, JSON, Redis\<close>

text \<open>
  What a service does beside returning is recorded as a list of events: the log lines it
  writes, and the requests it sends to Spotify.
\<close>

datatype log_level = Debug | Info | Warn | Error

datatype event = Log log_level string | SpotifyRequest string

text \<open>
  \<^verbatim>\<open>JSON.parse\<close> throws on malformed text, and may return a falsy value (\<^verbatim>\<open>null\<close>,
  \<^verbatim>\<open>0\<close>, \<^verbatim>\<open>false\<close>, the empty string) that the callers' \<^verbatim>\<open>if (cached)\<close> takes for a
  miss. The codec of a service is a parameter.
\<close>

datatype 'a parsed = SyntaxError | Falsy | Parsed 'a

record 'a json_codec =
  stringify :: "'a \<Rightarrow> string"
  parse :: "string \<Rightarrow> 'a parsed"

text \<open>
  The Redis store: its entries (key, value, remaining time to live in seconds) in the order
  in which \<^verbatim>\<open>KEYS\<close> lists them, and the commands that are rejected at present (an
  outage). Redis itself drops an entry whose time has run out.
\<close>

datatype redis_command = GET | SETEX | DEL | KEYS | TTL

datatype redis_error = RedisError redis_command

record Redis =
  entries :: "(string \<times> string \<times> int) list"
  failing :: "redis_command list"

definition redis_get :: "Redis \<Rightarrow> string \<Rightarrow> redis_error + string option" where
  "redis_get r k =
     (if GET \<in> set (failing r) then Inl (RedisError GET)
      else Inr (map_option fst (map_of (entries r) k)))"

definition redis_setex :: "Redis \<Rightarrow> string \<Rightarrow> int \<Rightarrow> string \<Rightarrow> redis_error + Redis" where
  "redis_setex r k seconds v =
     (if SETEX \<in> set (failing r) then Inl (RedisError SETEX)
      else Inr (r\<lparr>entries := AList.update k (v, seconds) (entries r)\<rparr>))"

text \<open>\<^verbatim>\<open>redis.keys(`${prefix}*`)\<close>: the keys that start with the prefix.\<close>

definition redis_keys :: "Redis \<Rightarrow> string \<Rightarrow> redis_error + string list" where
  "redis_keys r pre =
     (if KEYS \<in> set (failing r) then Inl (RedisError KEYS)
      else Inr (filter (\<lambda>k. take (length pre) k = pre) (map fst (entries r))))"

text \<open>\<^verbatim>\<open>redis.ttl(key)\<close>: the remaining seconds, -2 for a key that does not exist.\<close>

definition redis_ttl :: "Redis \<Rightarrow> string \<Rightarrow> redis_error + int" where
  "redis_ttl r k =
     (if TTL \<in> set (failing r) then Inl (RedisError TTL)
      else Inr (case map_of (entries r) k of None \<Rightarrow> - 2 | Some (v, t) \<Rightarrow> t))"

subsection \<open>MatchCacheService\<close>

definition CACHE_PREFIX :: string where
  "CACHE_PREFIX = ''match:''"

definition CACHE_TTL :: int where
  "CACHE_TTL = 7 * 24 * 60 * 60"

text \<open>
  \<^verbatim>\<open>[song1Id, song2Id].sort()\<close> orders the two identifiers as strings; \<open>sort\<close> is the
  stable sort of the lexicographic order on character codes.
\<close>

definition getCacheKey :: "string \<Rightarrow> string \<Rightarrow> string" where
  "getCacheKey song1Id song2Id =
     (let ids = sort [song1Id, song2Id]; id1 = ids ! 0; id2 = ids ! 1
      in CACHE_PREFIX @ id1 @ '':'' @ id2)"

text \<open>
  \<^verbatim>\<open>getCachedMatch\<close>: everything inside \<^verbatim>\<open>try\<close>, so that a rejected \<^verbatim>\<open>GET\<close> and a
  \<^verbatim>\<open>JSON.parse\<close> that throws both end in the warning and \<^verbatim>\<open>null\<close>.
\<close>

definition getCachedMatch ::
  "MatchResult json_codec \<Rightarrow> Redis \<Rightarrow> string \<Rightarrow> string \<Rightarrow> MatchResult option \<times> event list"
  where
  "getCachedMatch codec r song1Id song2Id =
     (let cacheKey = getCacheKey song1Id song2Id in
      case redis_get r cacheKey of
        Inl e \<Rightarrow> (None, [Log Warn ''Error retrieving cached match:''])
      | Inr None \<Rightarrow> (None, [])
      | Inr (Some cached) \<Rightarrow>
          (if cached = [] then (None, [])
           else (case parse codec cached of
                   SyntaxError \<Rightarrow> (None, [Log Warn ''Error retrieving cached match:''])
                 | Falsy \<Rightarrow> (None, [])
                 | Parsed result \<Rightarrow> (Some result, []))))"

text \<open>\<^verbatim>\<open>cacheMatch\<close> logs a rejected \<^verbatim>\<open>SETEX\<close> and throws it again.\<close>

definition cacheMatch ::
  "MatchResult json_codec \<Rightarrow> Redis \<Rightarrow> string \<Rightarrow> string \<Rightarrow> MatchResult \<Rightarrow>
   (redis_error + unit) \<times> Redis \<times> event list" where
  "cacheMatch codec r song1Id song2Id result =
     (let cacheKey = getCacheKey song1Id song2Id;
          serialized = stringify codec result in
      case redis_setex r cacheKey CACHE_TTL serialized of
        Inl e \<Rightarrow> (Inl e, r, [Log Error ''Error caching match result:''])
      | Inr r' \<Rightarrow>
          (Inr (), r',
           [Log Debug (''Cached match result: '' @ cacheKey @ '' (TTL: '' @
                       number_toString CACHE_TTL @ ''s)'')]))"

text \<open>
  \<^verbatim>\<open>getMatch\<close>. The write is started after the match is computed and is not awaited; its
  rejection goes to the \<^verbatim>\<open>.catch\<close> handler, which logs it. The store and the events
  returned are those after the write has settled.
\<close>

definition getMatch ::
  "MatchResult json_codec \<Rightarrow> real \<Rightarrow> real \<Rightarrow> Redis \<Rightarrow> AudioFeatures \<Rightarrow> AudioFeatures \<Rightarrow>
   string \<Rightarrow> string \<Rightarrow> bool \<Rightarrow> (js_error + MatchResult) \<times> Redis \<times> event list" where
  "getMatch codec startTime endTime r features1 features2 song1Id song2Id bypassCache =
     (let (cached, evs1) =
            (if \<not> bypassCache then getCachedMatch codec r song1Id song2Id else (None, []))
      in case cached of
           Some hit \<Rightarrow>
             (Inr hit, r,
              evs1 @ [Log Debug (''Cache hit for match: '' @ song1Id @ '' <-> '' @ song2Id)])
         | None \<Rightarrow>
             (let evs2 =
                    evs1 @ [Log Debug (''Cache miss for match: '' @ song1Id @ '' <-> '' @ song2Id)]
              in case calculateMatch startTime endTime features1 features2 of
                   Inl e \<Rightarrow> (Inl e, r, evs2)
                 | Inr result \<Rightarrow>
                     (case cacheMatch codec r song1Id song2Id result of
                        (Inl e, r', evs3) \<Rightarrow>
                          (Inr result, r',
                           evs2 @ evs3 @ [Log Error ''Failed to cache match result:''])
                      | (Inr u, r', evs3) \<Rightarrow> (Inr result, r', evs2 @ evs3))))"

text \<open>
  \<^verbatim>\<open>getCacheStats\<close>. The first loop sums the lengths of the values of the first ten keys,
  the second walks the first hundred keys and keeps the key whose \<^verbatim>\<open>TTL\<close> is greater than
  every one seen before. A rejected command is logged and thrown again.
\<close>

record CacheStats =
  totalKeys :: nat
  estimatedSize :: int
  oldestKey :: "string option"

fun sample_sizes :: "Redis \<Rightarrow> string list \<Rightarrow> nat \<Rightarrow> redis_error + nat" where
  "sample_sizes r [] estimated = Inr estimated"
| "sample_sizes r (k # ks) estimated =
     (case redis_get r k of
        Inl e \<Rightarrow> Inl e
      | Inr None \<Rightarrow> sample_sizes r ks estimated
      | Inr (Some v) \<Rightarrow> sample_sizes r ks (if v \<noteq> [] then estimated + length v else estimated))"

fun find_oldest ::
  "Redis \<Rightarrow> string list \<Rightarrow> string option \<Rightarrow> int \<Rightarrow> redis_error + string option" where
  "find_oldest r [] oldest maxTtl = Inr oldest"
| "find_oldest r (k # ks) oldest maxTtl =
     (case redis_ttl r k of
        Inl e \<Rightarrow> Inl e
      | Inr ttl \<Rightarrow>
          (if ttl > maxTtl then find_oldest r ks (Some k) ttl
           else find_oldest r ks oldest maxTtl))"

definition getCacheStats :: "Redis \<Rightarrow> (redis_error + CacheStats) \<times> event list" where
  "getCacheStats r =
     (let failed = (\<lambda>e. (Inl e, [Log Error ''Error getting cache stats:''])) in
      case redis_keys r CACHE_PREFIX of
        Inl e \<Rightarrow> failed e
      | Inr keys \<Rightarrow>
          (let total = length keys;
               sampleKeys = take (min 10 (length keys)) keys
           in case (if length keys > 0
                    then map_sum id
                           (\<lambda>est. Math_round (real est / real (length sampleKeys) * real total))
                           (sample_sizes r sampleKeys 0)
                    else Inr 0) of
                Inl e \<Rightarrow> failed e
              | Inr estimated \<Rightarrow>
                  (case find_oldest r (take 100 keys) None 0 of
                     Inl e \<Rightarrow> failed e
                   | Inr oldest \<Rightarrow>
                       (Inr \<lparr>totalKeys = total, estimatedSize = estimated,
                             oldestKey = oldest\<rparr>, []))))"

subsection \<open>SongCacheService and its collaborators\<close>

text \<open>
  A \<^verbatim>\<open>CachedSong\<close> (types/spotify.types.ts): the fields the cache reads are named, and
  the others (album, audio features, genres and so on) are the extension of the record,
  carried unchanged.
\<close>

record CachedSong =
  song_id :: string
  song_name :: string
  song_artist :: string
  song_cachedAt :: int
  song_expiresAt :: int
  song_platform :: string

text \<open>A row of the \<^verbatim>\<open>songCache\<close> table, unique in \<^verbatim>\<open>(platform, songId)\<close>; times in ms.\<close>

record SongCacheRow =
  platform :: string
  songId :: string
  title :: string
  row_artist :: string
  data :: string
  cachedAt :: int
  expiresAt :: int

datatype prisma_op = FindUnique | Upsert | Delete | DeleteMany | Count

datatype prisma_error = PrismaError prisma_op | RecordNotFound

record Database =
  songCache :: "(string \<times> string) \<rightharpoonup> SongCacheRow"
  db_failing :: "prisma_op list"

definition findUnique ::
  "Database \<Rightarrow> string \<Rightarrow> string \<Rightarrow> prisma_error + SongCacheRow option" where
  "findUnique db p s =
     (if FindUnique \<in> set (db_failing db) then Inl (PrismaError FindUnique)
      else Inr (songCache db (p, s)))"

text \<open>\<^verbatim>\<open>delete\<close> throws when there is no such row.\<close>

definition prisma_delete :: "Database \<Rightarrow> string \<Rightarrow> string \<Rightarrow> prisma_error + Database" where
  "prisma_delete db p s =
     (if Delete \<in> set (db_failing db) then Inl (PrismaError Delete)
      else (case songCache db (p, s) of
              None \<Rightarrow> Inl RecordNotFound
            | Some row \<Rightarrow> Inr (db\<lparr>songCache := (songCache db)((p, s) := None)\<rparr>)))"

text \<open>\<^verbatim>\<open>upsert\<close>: the \<^verbatim>\<open>create\<close> row when there is none, else the \<^verbatim>\<open>update\<close> fields.\<close>

definition prisma_upsert :: "Database \<Rightarrow> SongCacheRow \<Rightarrow> prisma_error + Database" where
  "prisma_upsert db row =
     (if Upsert \<in> set (db_failing db) then Inl (PrismaError Upsert)
      else (let k = (platform row, songId row);
                stored = (case songCache db k of
                            None \<Rightarrow> row
                          | Some old \<Rightarrow>
                              old\<lparr>title := title row, row_artist := row_artist row,
                                  data := data row, cachedAt := cachedAt row,
                                  expiresAt := expiresAt row\<rparr>)
            in Inr (db\<lparr>songCache := (songCache db)(k \<mapsto> stored)\<rparr>)))"

text \<open>
  The Spotify service, the source of the songs: \<^verbatim>\<open>getTrack\<close> and
  \<^verbatim>\<open>convertToCachedSong\<close> (which asks Spotify for the audio features) are parameters;
  each may throw an \<^verbatim>\<open>AppError\<close> (status, code, message).
\<close>

datatype app_error = AppError int string string

record ('t, 'x) SpotifyService =
  getTrack :: "string \<Rightarrow> app_error + 't"
  convertToCachedSong :: "'t \<Rightarrow> app_error + 'x CachedSong_scheme"

definition deleteCachedSong :: "Database \<Rightarrow> string \<Rightarrow> string \<Rightarrow> Database \<times> event list" where
  "deleteCachedSong db sId p =
     (case prisma_delete db p sId of
        Inl e \<Rightarrow> (db, [Log Error ''Error deleting cached song:''])
      | Inr db' \<Rightarrow> (db', [Log Debug (''Deleted cached song: '' @ sId)]))"

text \<open>
  \<^verbatim>\<open>getCachedSong\<close>, with \<open>now\<close> the reading of \<^verbatim>\<open>Date.now()\<close>. The row is expired
  when \<^verbatim>\<open>cached.expiresAt.getTime() < Date.now()\<close>.
\<close>

definition getCachedSong ::
  "('x CachedSong_scheme) json_codec \<Rightarrow> Database \<Rightarrow> int \<Rightarrow> string \<Rightarrow> string \<Rightarrow>
   'x CachedSong_scheme option \<times> Database \<times> event list" where
  "getCachedSong codec db now sId p =
     (case findUnique db p sId of
        Inl e \<Rightarrow> (None, db, [Log Error ''Error retrieving cached song:''])
      | Inr None \<Rightarrow> (None, db, [])
      | Inr (Some cached) \<Rightarrow>
          (if expiresAt cached < now
           then (case deleteCachedSong db sId p of
                   (db', evs) \<Rightarrow>
                     (None, db', Log Debug (''Cache expired for song: '' @ sId) # evs))
           else (case parse codec (data cached) of
                   SyntaxError \<Rightarrow> (None, db, [Log Error ''Error retrieving cached song:''])
                 | Falsy \<Rightarrow> (None, db, [])
                 | Parsed song \<Rightarrow> (Some song, db, []))))"

text \<open>\<^verbatim>\<open>cacheSong\<close>: ``Don't throw - caching failure shouldn't break the request''.\<close>

definition cacheSong ::
  "('x CachedSong_scheme) json_codec \<Rightarrow> Database \<Rightarrow> 'x CachedSong_scheme \<Rightarrow>
   Database \<times> event list" where
  "cacheSong codec db song =
     (let d = stringify codec song in
      case prisma_upsert db
             \<lparr>platform = song_platform song, songId = song_id song, title = song_name song,
              row_artist = song_artist song, data = d, cachedAt = song_cachedAt song,
              expiresAt = song_expiresAt song\<rparr> of
        Inl e \<Rightarrow> (db, [Log Error ''Error caching song:''])
      | Inr db' \<Rightarrow>
          (db', [Log Debug (''Cached song: '' @ song_id song @ '' ('' @ song_name song @ '')'')]))"

definition getSongById ::
  "('x CachedSong_scheme) json_codec \<Rightarrow> ('t, 'x) SpotifyService \<Rightarrow> Database \<Rightarrow> int \<Rightarrow>
   string \<Rightarrow> string \<Rightarrow> (app_error + 'x CachedSong_scheme) \<times> Database \<times> event list" where
  "getSongById codec spotify db now sId p =
     (case getCachedSong codec db now sId p of
        (Some cached, db1, evs1) \<Rightarrow>
          (Inr cached, db1, evs1 @ [Log Debug (''Cache hit for song: '' @ sId)])
      | (None, db1, evs1) \<Rightarrow>
          (let evs2 = evs1 @
                 [Log Debug (''Cache miss for song: '' @ sId @ '', fetching from Spotify''),
                  SpotifyRequest sId]
           in case getTrack spotify sId of
                Inl e \<Rightarrow> (Inl e, db1, evs2)
              | Inr track \<Rightarrow>
                  (case convertToCachedSong spotify track of
                     Inl e \<Rightarrow> (Inl e, db1, evs2)
                   | Inr song \<Rightarrow>
                       (case cacheSong codec db1 song of
                          (db2, evs3) \<Rightarrow> (Inr song, db2, evs2 @ evs3)))))"

text \<open>Whether a run of a service sent a request to Spotify.\<close>

definition contacted :: "event list \<Rightarrow> bool" where
  "contacted evs = list_ex (\<lambda>e. case e of SpotifyRequest s \<Rightarrow> True | Log l m \<Rightarrow> False) evs"

subsection \<open>Concrete stores and collaborators\<close>

text \<open>A Redis in which every command is rejected, and a codec that is never reached there.\<close>

definition redis_down :: Redis where
  "redis_down = \<lparr>entries = [], failing = [GET, SETEX, DEL, KEYS, TTL]\<rparr>"

definition null_codec :: "MatchResult json_codec" where
  "null_codec = \<lparr>stringify = (\<lambda>r. ''{}''), parse = (\<lambda>s. Falsy)\<rparr>"

text \<open>
  Two cached matches: the first was written 604700 seconds ago and has 100 seconds left,
  the second has just been written with the full \<open>CACHE_TTL\<close>.
\<close>

definition redis_two :: Redis where
  "redis_two =
     \<lparr>entries = [(''match:a:b'', ''{overallScore:50}'', 100),
                 (''match:c:d'', ''{overallScore:70}'', 604800)],
      failing = []\<rparr>"

text \<open>
  A song table with one row that expires at time 1000, a codec that writes a song as its
  identifier, and a Spotify that knows the track \<open>s1\<close> only.
\<close>

definition song1 :: CachedSong where
  "song1 = \<lparr>song_id = ''s1'', song_name = ''Song'', song_artist = ''Artist'',
            song_cachedAt = 0, song_expiresAt = 1000, song_platform = ''spotify''\<rparr>"

definition id_codec :: "CachedSong json_codec" where
  "id_codec =
     \<lparr>stringify = song_id,
      parse = (\<lambda>s. if s = ''s1'' then Parsed song1 else SyntaxError)\<rparr>"

definition row1 :: SongCacheRow where
  "row1 = \<lparr>platform = ''spotify'', songId = ''s1'', title = ''Song'', row_artist = ''Artist'',
           data = ''s1'', cachedAt = 0, expiresAt = 1000\<rparr>"

definition db_one :: Database where
  "db_one = \<lparr>songCache = [(''spotify'', ''s1'') \<mapsto> row1], db_failing = []\<rparr>"

definition db_down :: Database where
  "db_down = \<lparr>songCache = Map.empty,
              db_failing = [FindUnique, Upsert, Delete, DeleteMany, Count]\<rparr>"

definition spotify_one :: "(string, unit) SpotifyService" where
  "spotify_one =
     \<lparr>getTrack = (\<lambda>s. if s = ''s1'' then Inr s
                       else Inl (AppError 404 ''NOT_FOUND'' ''Track not found on Spotify'')),
      convertToCachedSong =
        (\<lambda>t. Inr (song1\<lparr>song_cachedAt := 2000, song_expiresAt := 2000 + 2592000000\<rparr>))\<rparr>"

section \<open>Properties of the matching service\<close>

subsection \<open>Bounds of the similarity primitives\<close>

lemma continuousSimilarity_bounds:
  "0 \<le> a \<Longrightarrow> a \<le> 1 \<Longrightarrow> 0 \<le> b \<Longrightarrow> b \<le> 1 \<Longrightarrow>
   0 \<le> continuousSimilarity a b \<and> continuousSimilarity a b \<le> 1"
  by (simp add: continuousSimilarity_def abs_if)

lemma tempoSimilarity_bounds: "0 \<le> tempoSimilarity a b \<and> tempoSimilarity a b \<le> 1"
  by (simp add: tempoSimilarity_def Let_def)

lemma timeSignatureSimilarity_bounds:
  "0 \<le> timeSignatureSimilarity a b \<and> timeSignatureSimilarity a b \<le> 1"
  by (simp add: timeSignatureSimilarity_def)

lemma loudnessSimilarity_bounds:
  "- 60 \<le> a \<Longrightarrow> a \<le> 0 \<Longrightarrow> - 60 \<le> b \<Longrightarrow> b \<le> 0 \<Longrightarrow>
   0 \<le> loudnessSimilarity a b \<and> loudnessSimilarity a b \<le> 1"
  by (simp add: loudnessSimilarity_def Let_def abs_if diff_divide_distrib [symmetric])

lemma durationSimilarity_bounds:
  "0 \<le> durationSimilarity a b \<and> durationSimilarity a b \<le> 1"
  by (simp add: durationSimilarity_def Let_def)

lemma genreSimilarity_bounds: "0 \<le> genreSimilarity a b \<and> genreSimilarity a b \<le> 1"
proof (cases "length a = 0 \<or> length b = 0")
  case True
  then show ?thesis by (simp add: genreSimilarity_def)
next
  case False
  let ?A = "set (map toLowerCase a)" and ?B = "set (map toLowerCase b)"
  have "card {x \<in> ?A. x \<in> ?B} \<le> card (?A \<union> ?B)"
    by (rule card_mono) auto
  moreover have "0 < card (?A \<union> ?B)"
    using False by (simp add: card_gt_0_iff)
  ultimately show ?thesis
    using False by (simp add: genreSimilarity_def Let_def)
qed

lemma artistSimilarity_bounds: "0 \<le> artistSimilarity a b \<and> artistSimilarity a b \<le> 1"
  by (simp add: artistSimilarity_def)

lemma eraSimilarity_bounds: "0 \<le> eraSimilarity a b \<and> eraSimilarity a b \<le> 1"
  by (simp add: eraSimilarity_def Let_def split: option.split)

lemma Math_round_percent:
  "0 \<le> x \<Longrightarrow> x \<le> 1 \<Longrightarrow> 0 \<le> Math_round (x * 100) \<and> Math_round (x * 100) \<le> 100"
  unfolding Math_round_def by (simp add: le_floor_iff floor_le_iff)

lemma layer1_score:
  "score (calculateLayer1 f1 f2) =
     (continuousSimilarity (valence f1) (valence f2) * 0.15 +
      continuousSimilarity (energy f1) (energy f2) * 0.15 +
      continuousSimilarity (danceability f1) (danceability f2) * 0.12 +
      tempoSimilarity (tempo f1) (tempo f2) * 0.1 +
      continuousSimilarity (acousticness f1) (acousticness f2) * 0.08) / 0.6"
  by (simp add: calculateLayer1_def reduce_components_def)

lemma layer2_score:
  "keySimilarity (key f1) (mode f1) (key f2) (mode f2) = Inr ks \<Longrightarrow>
   \<exists>l2. calculateLayer2 f1 f2 = Inr l2 \<and>
     score l2 =
       (ks * 0.1 + timeSignatureSimilarity (timeSignature f1) (timeSignature f2) * 0.05 +
        loudnessSimilarity (loudness f1) (loudness f2) * 0.05 +
        durationSimilarity (durationMs f1) (durationMs f2) * 0.05) / 0.25 \<and>
     map_of (components l2) ''keyMode'' \<noteq> None"
  by (simp add: calculateLayer2_def reduce_components_def)

lemma layer3_score:
  "score (calculateLayer3 f1 f2) =
     (genreSimilarity (genres_or_empty f1) (genres_or_empty f2) * 0.08 +
      artistSimilarity (artist f1) (artist f2) * 0.04 +
      eraSimilarity (releaseYear f1) (releaseYear f2) * 0.03) / 0.15"
  by (simp add: calculateLayer3_def reduce_components_def)

subsection \<open>The distance matrix is the circle of fifths\<close>

lemma matrix_table: "CIRCLE_DISTANCE_MATRIX =
 [[0, 5, 2, 3, 4, 1, 6, 1, 4, 3, 2, 5],
  [5, 0, 5, 2, 3, 4, 1, 6, 1, 4, 3, 2],
  [2, 5, 0, 5, 2, 3, 4, 1, 6, 1, 4, 3],
  [3, 2, 5, 0, 5, 2, 3, 4, 1, 6, 1, 4],
  [4, 3, 2, 5, 0, 5, 2, 3, 4, 1, 6, 1],
  [1, 4, 3, 2, 5, 0, 5, 2, 3, 4, 1, 6],
  [6, 1, 4, 3, 2, 5, 0, 5, 2, 3, 4, 1],
  [1, 6, 1, 4, 3, 2, 5, 0, 5, 2, 3, 4],
  [4, 1, 6, 1, 4, 3, 2, 5, 0, 5, 2, 3],
  [3, 4, 1, 6, 1, 4, 3, 2, 5, 0, 5, 2],
  [2, 3, 4, 1, 6, 1, 4, 3, 2, 5, 0, 5],
  [5, 2, 3, 4, 1, 6, 1, 4, 3, 2, 5, 0]]"
  by code_simp

lemma steps_table: "map (\<lambda>i. map (\<lambda>j. fifths_steps i j) [0..11]) [0..11] =
 [[0, 5, 2, 3, 4, 1, 6, 1, 4, 3, 2, 5],
  [5, 0, 5, 2, 3, 4, 1, 6, 1, 4, 3, 2],
  [2, 5, 0, 5, 2, 3, 4, 1, 6, 1, 4, 3],
  [3, 2, 5, 0, 5, 2, 3, 4, 1, 6, 1, 4],
  [4, 3, 2, 5, 0, 5, 2, 3, 4, 1, 6, 1],
  [1, 4, 3, 2, 5, 0, 5, 2, 3, 4, 1, 6],
  [6, 1, 4, 3, 2, 5, 0, 5, 2, 3, 4, 1],
  [1, 6, 1, 4, 3, 2, 5, 0, 5, 2, 3, 4],
  [4, 1, 6, 1, 4, 3, 2, 5, 0, 5, 2, 3],
  [3, 4, 1, 6, 1, 4, 3, 2, 5, 0, 5, 2],
  [2, 3, 4, 1, 6, 1, 4, 3, 2, 5, 0, 5],
  [5, 2, 3, 4, 1, 6, 1, 4, 3, 2, 5, 0]]"
  by code_simp

lemma matrix_steps:
  "CIRCLE_DISTANCE_MATRIX = map (\<lambda>i. map (\<lambda>j. fifths_steps i j) [0..11]) [0..11]"
  by (simp only: matrix_table steps_table)

lemma matrix_lookup:
  assumes "0 \<le> k1" "k1 \<le> 11" "0 \<le> k2" "k2 \<le> 11"
  shows "js_index CIRCLE_DISTANCE_MATRIX k1 = Some (map (\<lambda>j. fifths_steps k1 j) [0..11])"
    and "js_index (map (\<lambda>j. fifths_steps k1 j) [0..11]) k2 = Some (fifths_steps k1 k2)"
  using assms by (simp_all add: js_index_def matrix_steps)

lemma fifths_steps_range: "0 \<le> fifths_steps k1 k2 \<and> fifths_steps k1 k2 \<le> 6"
proof -
  define d where "d = fifths_position k2 - fifths_position k1"
  define r where "r = d mod 12"
  have neg: "fifths_position k1 - fifths_position k2 = - d" by (simp add: d_def)
  have m: "(- d) mod 12 = (if r = 0 then 0 else 12 - r)"
    unfolding r_def by (simp only: zmod_zminus1_eq_if)
  have r: "0 \<le> r" "r < 12" by (simp_all add: r_def)
  have "fifths_steps k1 k2 = min r ((- d) mod 12)"
    by (simp only: fifths_steps_def Let_def d_def [symmetric] neg r_def)
  then have "fifths_steps k1 k2 = min r (if r = 0 then 0 else 12 - r)"
    by (simp only: m)
  with r show ?thesis by (auto simp: min_def)
qed

lemma fifths_steps_sym: "fifths_steps k1 k2 = fifths_steps k2 k1"
  by (simp only: fifths_steps_def Let_def min.commute)

lemma keySimilarity_value:
  assumes "0 \<le> key1" "key1 \<le> 11" "0 \<le> key2" "key2 \<le> 11"
  shows "keySimilarity key1 mode1 key2 mode2 =
           Inr (if key1 = key2 \<and> mode1 = mode2 then 1
                else if key1 = key2 then 0.7
                else if mode1 = mode2 then 1 - real_of_int (fifths_steps key1 key2) / 6
                else (1 - real_of_int (fifths_steps key1 key2) / 6) * 0.8)"
  using assms by (simp add: keySimilarity_def matrix_lookup)

lemma keySimilarity_bounds:
  assumes "0 \<le> key1" "key1 \<le> 11" "0 \<le> key2" "key2 \<le> 11"
  shows "\<exists>ks. keySimilarity key1 mode1 key2 mode2 = Inr ks \<and> 0 \<le> ks \<and> ks \<le> 1"
proof -
  have "0 \<le> real_of_int (fifths_steps key1 key2)" "real_of_int (fifths_steps key1 key2) \<le> 6"
    using fifths_steps_range [of key1 key2] by simp_all
  then show ?thesis
    unfolding keySimilarity_value [OF assms] by (simp add: field_simps)
qed

lemma keySimilarity_sym:
  assumes "0 \<le> key1" "key1 \<le> 11" "0 \<le> key2" "key2 \<le> 11"
  shows "keySimilarity key1 mode1 key2 mode2 = keySimilarity key2 mode2 key1 mode1"
  using assms fifths_steps_sym [of key1 key2] by (auto simp add: keySimilarity_value)

subsection \<open>The result of \<^verbatim>\<open>calculateMatch\<close>\<close>

lemma layer1_lookups:
  "map_of (components (calculateLayer1 f1 f2)) ''valence'' \<noteq> None"
  "map_of (components (calculateLayer1 f1 f2)) ''energy'' \<noteq> None"
  "map_of (components (calculateLayer1 f1 f2)) ''tempo'' \<noteq> None"
  by (simp_all add: calculateLayer1_def Let_def)

lemma layer3_lookups:
  "map_of (components (calculateLayer3 f1 f2)) ''genre'' \<noteq> None"
  by (simp add: calculateLayer3_def Let_def)

lemma generateExplanation_details:
  assumes "map_of (components (layer1 layers)) ''valence'' \<noteq> None"
    and "map_of (components (layer1 layers)) ''energy'' \<noteq> None"
    and "map_of (components (layer1 layers)) ''tempo'' \<noteq> None"
    and "map_of (components (layer2 layers)) ''keyMode'' \<noteq> None"
    and "map_of (components (layer3 layers)) ''genre'' \<noteq> None"
  shows "\<exists>x. generateExplanation f1 f2 layers ov = Inr x \<and>
           details x = \<lparr>mood = getMoodDescription (valence f1) (energy f1),
                        rhythm = getRhythmDescription (tempo f1) (danceability f1),
                        harmony = getHarmonyDescription (key f1) (mode f1),
                        style = getStyleDescription (genres f1) (artist f1)\<rparr>"
  using assms by (auto simp add: generateExplanation_def Let_def)

lemma calculateMatch_result:
  assumes "keySimilarity (key f1) (mode f1) (key f2) (mode f2) = Inr ks"
  shows "\<exists>r l2. calculateMatch s e f1 f2 = Inr r \<and> calculateLayer2 f1 f2 = Inr l2 \<and>
           score l2 =
             (ks * 0.1 + timeSignatureSimilarity (timeSignature f1) (timeSignature f2) * 0.05 +
              loudnessSimilarity (loudness f1) (loudness f2) * 0.05 +
              durationSimilarity (durationMs f1) (durationMs f2) * 0.05) / 0.25 \<and>
           overallScore r =
             Math_round ((score (calculateLayer1 f1 f2) * 0.6 + score l2 * 0.25 +
                          score (calculateLayer3 f1 f2) * 0.15) * 100) \<and>
           confidence r = calculateConfidence f1 f2 \<and>
           breakdown r = \<lparr>layer1 = calculateLayer1 f1 f2, layer2 = l2,
                           layer3 = calculateLayer3 f1 f2\<rparr> \<and>
           details (explanation r) =
             \<lparr>mood = getMoodDescription (valence f1) (energy f1),
              rhythm = getRhythmDescription (tempo f1) (danceability f1),
              harmony = getHarmonyDescription (key f1) (mode f1),
              style = getStyleDescription (genres f1) (artist f1)\<rparr>"
proof -
  from layer2_score [OF assms] obtain l2 where
    l2: "calculateLayer2 f1 f2 = Inr l2" "map_of (components l2) ''keyMode'' \<noteq> None"
    and sc: "score l2 =
             (ks * 0.1 + timeSignatureSimilarity (timeSignature f1) (timeSignature f2) * 0.05 +
              loudnessSimilarity (loudness f1) (loudness f2) * 0.05 +
              durationSimilarity (durationMs f1) (durationMs f2) * 0.05) / 0.25"
    by blast
  let ?layers = "\<lparr>layer1 = calculateLayer1 f1 f2, layer2 = l2, layer3 = calculateLayer3 f1 f2\<rparr>"
  let ?ov = "Math_round ((score (calculateLayer1 f1 f2) * 0.6 + score l2 * 0.25 +
                          score (calculateLayer3 f1 f2) * 0.15) * 100)"
  have "\<exists>x. generateExplanation f1 f2 ?layers ?ov = Inr x \<and>
           details x = \<lparr>mood = getMoodDescription (valence f1) (energy f1),
                        rhythm = getRhythmDescription (tempo f1) (danceability f1),
                        harmony = getHarmonyDescription (key f1) (mode f1),
                        style = getStyleDescription (genres f1) (artist f1)\<rparr>"
    by (rule generateExplanation_details) (simp_all add: layer1_lookups layer3_lookups l2)
  then obtain x where x: "generateExplanation f1 f2 ?layers ?ov = Inr x"
    "details x = \<lparr>mood = getMoodDescription (valence f1) (energy f1),
                        rhythm = getRhythmDescription (tempo f1) (danceability f1),
                        harmony = getHarmonyDescription (key f1) (mode f1),
                        style = getStyleDescription (genres f1) (artist f1)\<rparr>"
    by blast
  have "calculateMatch s e f1 f2 =
          Inr \<lparr>overallScore = ?ov, confidence = calculateConfidence f1 f2,
               breakdown = ?layers, explanation = x,
               processingTime = real_of_int (Math_round ((e - s) * 100)) / 100,
               algorithmVersion = ALGORITHM_VERSION\<rparr>"
    using l2(1) x(1) by (simp add: calculateMatch_def Let_def)
  with x(2) have "\<exists>r. calculateMatch s e f1 f2 = Inr r \<and> overallScore r = ?ov \<and>
      confidence r = calculateConfidence f1 f2 \<and> breakdown r = ?layers \<and>
      details (explanation r) =
             \<lparr>mood = getMoodDescription (valence f1) (energy f1),
              rhythm = getRhythmDescription (tempo f1) (danceability f1),
              harmony = getHarmonyDescription (key f1) (mode f1),
              style = getStyleDescription (genres f1) (artist f1)\<rparr>"
    by simp
  with l2(1) sc show ?thesis by blast
qed

subsection \<open>Boundedness\<close>

lemma calculateConfidence_closed:
  "calculateConfidence f1 f2 =
     (9 + (if has_genres f1 \<and> has_genres f2 then 1 else 0)
        + (if truthy_string (artist f1) \<and> truthy_string (artist f2) then 1 else 0)
        + (if truthy_number (releaseYear f1) \<and> truthy_number (releaseYear f2) then 1 else 0)) / 12"
  by (simp add: calculateConfidence_def Let_def)

lemma calculateConfidence_bounds:
  "9 / 12 \<le> calculateConfidence f1 f2 \<and> calculateConfidence f1 f2 \<le> 1"
  by (simp add: calculateConfidence_closed)

lemma layer1_bounds:
  assumes "valid_features f1" "valid_features f2"
  shows "0 \<le> score (calculateLayer1 f1 f2) \<and> score (calculateLayer1 f1 f2) \<le> 1"
proof -
  have v: "0 \<le> continuousSimilarity (valence f1) (valence f2) \<and>
           continuousSimilarity (valence f1) (valence f2) \<le> 1"
    using assms by (intro continuousSimilarity_bounds) (simp_all add: valid_features_def)
  have e: "0 \<le> continuousSimilarity (energy f1) (energy f2) \<and>
           continuousSimilarity (energy f1) (energy f2) \<le> 1"
    using assms by (intro continuousSimilarity_bounds) (simp_all add: valid_features_def)
  have d: "0 \<le> continuousSimilarity (danceability f1) (danceability f2) \<and>
           continuousSimilarity (danceability f1) (danceability f2) \<le> 1"
    using assms by (intro continuousSimilarity_bounds) (simp_all add: valid_features_def)
  have a: "0 \<le> continuousSimilarity (acousticness f1) (acousticness f2) \<and>
           continuousSimilarity (acousticness f1) (acousticness f2) \<le> 1"
    using assms by (intro continuousSimilarity_bounds) (simp_all add: valid_features_def)
  note t = tempoSimilarity_bounds [of "tempo f1" "tempo f2"]
  show ?thesis
    unfolding layer1_score using v e d a t by (simp add: field_simps)
qed

lemma layer2_bounds:
  assumes "valid_features f1" "valid_features f2"
  shows "\<exists>l2. calculateLayer2 f1 f2 = Inr l2 \<and> 0 \<le> score l2 \<and> score l2 \<le> 1"
proof -
  obtain ks where ks: "keySimilarity (key f1) (mode f1) (key f2) (mode f2) = Inr ks"
      "0 \<le> ks" "ks \<le> 1"
    using keySimilarity_bounds [of "key f1" "key f2" "mode f1" "mode f2"] assms
    by (auto simp add: valid_features_def)
  have l: "0 \<le> loudnessSimilarity (loudness f1) (loudness f2) \<and>
           loudnessSimilarity (loudness f1) (loudness f2) \<le> 1"
    using assms by (intro loudnessSimilarity_bounds) (simp_all add: valid_features_def)
  note t = timeSignatureSimilarity_bounds [of "timeSignature f1" "timeSignature f2"]
  note d = durationSimilarity_bounds [of "durationMs f1" "durationMs f2"]
  from layer2_score [OF ks(1)] obtain l2 where l2: "calculateLayer2 f1 f2 = Inr l2"
    "score l2 =
       (ks * 0.1 + timeSignatureSimilarity (timeSignature f1) (timeSignature f2) * 0.05 +
        loudnessSimilarity (loudness f1) (loudness f2) * 0.05 +
        durationSimilarity (durationMs f1) (durationMs f2) * 0.05) / 0.25"
    by blast
  have "0 \<le> score l2 \<and> score l2 \<le> 1"
    unfolding l2(2) using ks(2,3) l t d by (simp add: field_simps)
  with l2(1) show ?thesis by blast
qed

lemma layer3_bounds:
  "0 \<le> score (calculateLayer3 f1 f2) \<and> score (calculateLayer3 f1 f2) \<le> 1"
proof -
  note g = genreSimilarity_bounds [of "genres_or_empty f1" "genres_or_empty f2"]
  note a = artistSimilarity_bounds [of "artist f1" "artist f2"]
  note e = eraSimilarity_bounds [of "releaseYear f1" "releaseYear f2"]
  show ?thesis
    unfolding layer3_score using g a e by (simp add: field_simps)
qed

text \<open>
  Claim C4. For every pair of feature vectors whose mandatory fields lie in their ranges
  (\<open>valid_features\<close>), \<^verbatim>\<open>calculateMatch\<close> returns a result, its \<open>overallScore\<close> is an
  integer between 0 and 100, and its \<open>confidence\<close> lies between 0 and 1.
\<close>

theorem calculateMatch_bounded:
  assumes "valid_features f1" and "valid_features f2"
  shows "\<exists>r. calculateMatch startTime endTime f1 f2 = Inr r \<and>
           0 \<le> overallScore r \<and> overallScore r \<le> 100 \<and>
           0 \<le> confidence r \<and> confidence r \<le> 1"
proof -
  from layer2_bounds [OF assms] obtain l2 where
    l2: "calculateLayer2 f1 f2 = Inr l2" "0 \<le> score l2" "score l2 \<le> 1" by blast
  obtain ks where ks: "keySimilarity (key f1) (mode f1) (key f2) (mode f2) = Inr ks"
    using keySimilarity_bounds [of "key f1" "key f2" "mode f1" "mode f2"] assms
    by (auto simp add: valid_features_def)
  from calculateMatch_result [OF ks, of startTime endTime] l2(1) obtain r where
    r: "calculateMatch startTime endTime f1 f2 = Inr r"
       "overallScore r =
          Math_round ((score (calculateLayer1 f1 f2) * 0.6 + score l2 * 0.25 +
                       score (calculateLayer3 f1 f2) * 0.15) * 100)"
       "confidence r = calculateConfidence f1 f2"
    by auto
  let ?x = "score (calculateLayer1 f1 f2) * 0.6 + score l2 * 0.25 +
            score (calculateLayer3 f1 f2) * 0.15"
  have "0 \<le> ?x \<and> ?x \<le> 1"
    using layer1_bounds [OF assms] l2(2,3) layer3_bounds [of f1 f2] by simp
  then have "0 \<le> Math_round (?x * 100) \<and> Math_round (?x * 100) \<le> 100"
    using Math_round_percent [of ?x] by blast
  moreover have "0 \<le> calculateConfidence f1 f2 \<and> calculateConfidence f1 f2 \<le> 1"
    using calculateConfidence_bounds [of f1 f2] by simp
  ultimately show ?thesis
    using r by simp
qed

theorem calculateMatch_bounded_witness:
  "valid_features identicalSong \<and> valid_features oppositeSong \<and>
   (\<exists>r. calculateMatch 0 1 identicalSong oppositeSong = Inr r \<and>
        0 \<le> overallScore r \<and> overallScore r \<le> 100 \<and>
        0 \<le> confidence r \<and> confidence r \<le> 1)"
proof -
  have h: "valid_features identicalSong" "valid_features oppositeSong"
    by (simp_all add: valid_features_def identicalSong_def oppositeSong_def)
  from calculateMatch_bounded [OF h, of 0 1] h show ?thesis by (intro conjI)
qed

subsection \<open>Identity\<close>

lemma tempoSimilarity_same: "tempoSimilarity a a = 1"
  by (simp add: tempoSimilarity_def Let_def)

lemma genreSimilarity_same: "g \<noteq> [] \<Longrightarrow> genreSimilarity g g = 1"
proof -
  assume g: "g \<noteq> []"
  have eq: "{x \<in> set (map toLowerCase g). x \<in> set (map toLowerCase g)} = set (map toLowerCase g)"
    by auto
  have "card (set (map toLowerCase g)) \<noteq> 0"
    using g by (simp add: card_eq_0_iff)
  then show ?thesis
    using g by (simp add: genreSimilarity_def Let_def eq del: set_map)
qed

lemma layer_scores_same:
  assumes "has_genres v" "truthy_string (artist v)" "truthy_number (releaseYear v)"
  shows "score (calculateLayer1 v v) = 1"
    and "\<exists>l2. calculateLayer2 v v = Inr l2 \<and> score l2 = 1"
    and "score (calculateLayer3 v v) = 1"
proof -
  show "score (calculateLayer1 v v) = 1"
    by (simp add: layer1_score continuousSimilarity_def tempoSimilarity_same)
  have ks: "keySimilarity (key v) (mode v) (key v) (mode v) = Inr 1"
    by (simp add: keySimilarity_def)
  from layer2_score [OF ks] show "\<exists>l2. calculateLayer2 v v = Inr l2 \<and> score l2 = 1"
    by (auto simp add: timeSignatureSimilarity_def loudnessSimilarity_def
          durationSimilarity_def)
  have g: "genreSimilarity (genres_or_empty v) (genres_or_empty v) = 1"
    using assms(1) by (intro genreSimilarity_same)
      (auto simp add: has_genres_def genres_or_empty_def split: option.splits)
  have a: "artistSimilarity (artist v) (artist v) = 1"
    using assms(2) by (simp add: artistSimilarity_def)
  have e: "eraSimilarity (releaseYear v) (releaseYear v) = 1"
    using assms(3) by (auto simp add: eraSimilarity_def truthy_number_def split: option.splits)
  show "score (calculateLayer3 v v) = 1"
    by (simp add: layer3_score g a e)
qed

text \<open>
  Claim C1, as amended. Scoring a vector against itself gives \<open>overallScore = 100\<close> when
  its three optional fields are present (a non-empty genre list, a non-empty artist, a
  non-zero release year), and the confidence is then 1, above 0.9. No range of the mandatory
  fields is needed. Without the optional fields the third layer is the neutral 0.5 and the
  score is lower, as the vector \<open>minimal\<close> of the test suite shows below.
\<close>

theorem calculateMatch_identity:
  assumes "has_genres v" and "truthy_string (artist v)" and "truthy_number (releaseYear v)"
  shows "\<exists>r. calculateMatch startTime endTime v v = Inr r \<and> overallScore r = 100 \<and>
           confidence r = 1 \<and> confidence r > 0.9"
proof -
  from layer_scores_same(2) [OF assms] obtain l2 where
    l2: "calculateLayer2 v v = Inr l2" "score l2 = 1" by blast
  have ks: "keySimilarity (key v) (mode v) (key v) (mode v) = Inr 1"
    by (simp add: keySimilarity_def)
  from calculateMatch_result [OF ks, of startTime endTime] l2(1) obtain r where
    r: "calculateMatch startTime endTime v v = Inr r"
       "overallScore r =
          Math_round ((score (calculateLayer1 v v) * 0.6 + score l2 * 0.25 +
                       score (calculateLayer3 v v) * 0.15) * 100)"
       "confidence r = calculateConfidence v v"
    by auto
  have "overallScore r = 100"
    unfolding r(2) l2(2) layer_scores_same(1,3) [OF assms] by (simp add: Math_round_def)
  moreover have "confidence r = 1"
    using assms by (simp add: r(3) calculateConfidence_closed)
  ultimately show ?thesis using r(1) by simp
qed

theorem calculateMatch_identity_witness:
  "has_genres identicalSong \<and> truthy_string (artist identicalSong) \<and>
   truthy_number (releaseYear identicalSong) \<and>
   (\<exists>r. calculateMatch 0 1 identicalSong identicalSong = Inr r \<and> overallScore r = 100 \<and>
        confidence r = 1 \<and> confidence r > 0.9)"
proof -
  have h: "has_genres identicalSong" "truthy_string (artist identicalSong)"
    "truthy_number (releaseYear identicalSong)"
    by (simp_all add: identicalSong_def has_genres_def truthy_string_def truthy_number_def)
  from calculateMatch_identity [OF h, of 0 1] h show ?thesis by blast
qed

text \<open>
  The claim as stated, for every valid vector, fails: \<open>minimal\<close> is valid and scores 93
  against itself.
\<close>

theorem calculateMatch_identity_counterexample:
  "valid_features minimal \<and>
   map_sum id overallScore (calculateMatch 0 1 minimal minimal) = Inr 93"
proof -
  have ks: "keySimilarity (key minimal) (mode minimal) (key minimal) (mode minimal) = Inr 1"
    by (simp add: keySimilarity_def)
  from layer2_score [OF ks] have l2: "\<exists>l2. calculateLayer2 minimal minimal = Inr l2 \<and> score l2 = 1"
    by (auto simp add: timeSignatureSimilarity_def loudnessSimilarity_def
          durationSimilarity_def)
  then obtain l2 where l2: "calculateLayer2 minimal minimal = Inr l2" "score l2 = 1" by blast
  have l1: "score (calculateLayer1 minimal minimal) = 1"
    by (simp add: layer1_score continuousSimilarity_def tempoSimilarity_same)
  have l3: "score (calculateLayer3 minimal minimal) = 1 / 2"
    by (simp add: layer3_score minimal_def genres_or_empty_def genreSimilarity_def
          artistSimilarity_def truthy_string_def eraSimilarity_def)
  from calculateMatch_result [OF ks, of 0 1] l2(1) obtain r where
    r: "calculateMatch 0 1 minimal minimal = Inr r"
       "overallScore r =
          Math_round ((score (calculateLayer1 minimal minimal) * 0.6 + score l2 * 0.25 +
                       score (calculateLayer3 minimal minimal) * 0.15) * 100)"
    by auto
  have "overallScore r = 93"
    unfolding r(2) l1 l2(2) l3 by (simp add: Math_round_def)
  moreover have "valid_features minimal"
    by (simp add: valid_features_def minimal_def)
  ultimately show ?thesis using r(1) by simp
qed

subsection \<open>Tempo, key and confidence\<close>

text \<open>
  Claim C6. For positive tempos \<open>a\<close> and \<open>b\<close> with \<open>r = max a b / min a b\<close>,
  \<^verbatim>\<open>tempoSimilarity\<close> is 0.7 when \<open>\<bar>r - 2\<bar> < 0.1\<close> or \<open>\<bar>r - 0.5\<bar> < 0.1\<close>, and
  \<open>max 0 (1 - \<bar>a - b\<bar> / 50)\<close> otherwise; \<open>tempoSimilarity 120 240\<close> lies in [0.65, 0.75]
  and \<open>tempoSimilarity 120 125\<close> is greater than \<open>tempoSimilarity 120 80\<close>.
\<close>

theorem tempoSimilarity_octave_or_linear:
  assumes "0 < a" and "0 < b"
  shows "tempoSimilarity a b =
           (let r = max a b / min a b
            in if \<bar>r - 2\<bar> < 0.1 \<or> \<bar>r - 0.5\<bar> < 0.1 then 0.7
               else max 0 (1 - \<bar>a - b\<bar> / 50)) \<and>
         0.65 \<le> tempoSimilarity 120 240 \<and> tempoSimilarity 120 240 \<le> 0.75 \<and>
         tempoSimilarity 120 125 > tempoSimilarity 120 80"
proof -
  have "min a b \<noteq> 0" using assms by (simp add: min_def)
  then have "tempoSimilarity a b =
           (let r = max a b / min a b
            in if \<bar>r - 2\<bar> < 0.1 \<or> \<bar>r - 0.5\<bar> < 0.1 then 0.7
               else max 0 (1 - \<bar>a - b\<bar> / 50))"
    by (simp add: tempoSimilarity_def Let_def)
  moreover have "tempoSimilarity 120 240 = 0.7" by (simp add: tempoSimilarity_def)
  moreover have "tempoSimilarity 120 125 = 0.9" by (simp add: tempoSimilarity_def)
  moreover have "tempoSimilarity 120 80 = 0.2" by (simp add: tempoSimilarity_def)
  ultimately show ?thesis by simp
qed

theorem tempoSimilarity_octave_or_linear_witness:
  "(0::real) < 120 \<and> (0::real) < 240 \<and> tempoSimilarity 120 240 = 0.7"
  using tempoSimilarity_octave_or_linear [of 120 240] by simp

text \<open>
  Claim C5. For keys in 0..11, \<^verbatim>\<open>keySimilarity\<close> is 1 for the same key and mode, 0.7 for
  the same key with different modes, and otherwise \<open>1 - d / 6\<close>, times 0.8 when the modes
  differ, with \<open>d = fifths_steps key1 key2\<close> the smaller number of steps between the keys on
  the circle C, G, D, A, E, B, F#, C#, G#, D#, A#, F. C major is closer to G major (5/6)
  than to F# major (0). No condition on the modes is needed.
\<close>

theorem keySimilarity_circle_of_fifths:
  assumes "0 \<le> key1" and "key1 \<le> 11" and "0 \<le> key2" and "key2 \<le> 11"
  shows "keySimilarity key1 mode1 key2 mode2 =
           Inr (if key1 = key2 \<and> mode1 = mode2 then 1.0
                else if key1 = key2 then 0.7
                else if mode1 = mode2 then 1 - real_of_int (fifths_steps key1 key2) / 6
                else (1 - real_of_int (fifths_steps key1 key2) / 6) * 0.8) \<and>
         keySimilarity 0 1 7 1 = Inr (5 / 6) \<and> keySimilarity 0 1 6 1 = Inr 0 \<and>
         (5 / 6 :: real) > 0"
proof -
  have s: "fifths_steps 0 7 = 1" "fifths_steps 0 6 = 6" by code_simp+
  have "keySimilarity 0 1 7 1 = Inr (5 / 6)"
    by (simp add: keySimilarity_value s)
  moreover have "keySimilarity 0 1 6 1 = Inr 0"
    by (simp add: keySimilarity_value s)
  ultimately show ?thesis
    using keySimilarity_value [OF assms, of mode1 mode2] by simp
qed

theorem keySimilarity_circle_of_fifths_witness:
  "(0::int) \<le> 0 \<and> (0::int) \<le> 11 \<and> (0::int) \<le> 7 \<and> (7::int) \<le> 11 \<and>
   keySimilarity 0 1 7 1 = Inr (1 - real_of_int (fifths_steps 0 7) / 6) \<and>
   keySimilarity 0 1 0 0 = Inr 0.7"
  using keySimilarity_circle_of_fifths [of 0 7 1 1] keySimilarity_circle_of_fifths [of 0 0 1 0]
  by simp

text \<open>
  Claim C7. \<^verbatim>\<open>calculateConfidence\<close> is \<open>(9 + g + a + y) / 12\<close>, where \<open>g\<close>, \<open>a\<close>, \<open>y\<close> are 1
  exactly when both songs have a non-empty genre list, both have an artist, both have a
  release year, and 0 otherwise; so it lies in [9/12, 1] and is below 1 only when optional
  metadata is missing. To have an artist or a release year is, in the source, for the field
  to be truthy: a non-empty string, a non-zero number (\<^verbatim>\<open>convertToCachedSong\<close> writes 0
  for an unknown year).
\<close>

theorem calculateConfidence_counts:
  "calculateConfidence f1 f2 =
     (9 + (if has_genres f1 \<and> has_genres f2 then 1 else 0)
        + (if truthy_string (artist f1) \<and> truthy_string (artist f2) then 1 else 0)
        + (if truthy_number (releaseYear f1) \<and> truthy_number (releaseYear f2) then 1 else 0))
     / 12 \<and>
   9 / 12 \<le> calculateConfidence f1 f2 \<and> calculateConfidence f1 f2 \<le> 1 \<and>
   (calculateConfidence f1 f2 = 1) =
     (has_genres f1 \<and> has_genres f2 \<and> truthy_string (artist f1) \<and> truthy_string (artist f2) \<and>
      truthy_number (releaseYear f1) \<and> truthy_number (releaseYear f2))"
  by (simp add: calculateConfidence_closed)

subsection \<open>Symmetry\<close>

lemma continuousSimilarity_sym: "continuousSimilarity a b = continuousSimilarity b a"
  by (simp add: continuousSimilarity_def abs_minus_commute)

lemma tempoSimilarity_sym: "tempoSimilarity a b = tempoSimilarity b a"
proof -
  have m: "min a b = min b a" "max a b = max b a" "\<bar>a - b\<bar> = \<bar>b - a\<bar>"
    by (simp_all add: min.commute max.commute abs_minus_commute)
  show ?thesis
    unfolding tempoSimilarity_def by (simp only: m)
qed

lemma timeSignatureSimilarity_sym: "timeSignatureSimilarity a b = timeSignatureSimilarity b a"
  by (auto simp add: timeSignatureSimilarity_def)

lemma loudnessSimilarity_sym: "loudnessSimilarity a b = loudnessSimilarity b a"
  by (simp add: loudnessSimilarity_def abs_minus_commute)

lemma durationSimilarity_sym: "durationSimilarity a b = durationSimilarity b a"
  by (simp add: durationSimilarity_def abs_minus_commute)

lemma genreSimilarity_sym: "genreSimilarity a b = genreSimilarity b a"
proof -
  have "{x \<in> set (map toLowerCase a). x \<in> set (map toLowerCase b)} =
        {x \<in> set (map toLowerCase b). x \<in> set (map toLowerCase a)}"
    by auto
  then show ?thesis
    by (auto simp add: genreSimilarity_def Let_def Un_commute simp del: set_map)
qed

lemma artistSimilarity_sym: "artistSimilarity a b = artistSimilarity b a"
  by (auto simp add: artistSimilarity_def)

lemma eraSimilarity_sym: "eraSimilarity a b = eraSimilarity b a"
  by (auto simp add: eraSimilarity_def Let_def abs_minus_commute split: option.splits)

lemma calculateConfidence_sym: "calculateConfidence f1 f2 = calculateConfidence f2 f1"
  by (simp add: calculateConfidence_closed conj_commute)

lemma mood_differs:
  "getMoodDescription (valence identicalSong) (energy identicalSong) \<noteq>
   getMoodDescription (valence oppositeSong) (energy oppositeSong)"
  by (simp add: getMoodDescription_def identicalSong_def oppositeSong_def)

lemma keySimilarity_both_orders:
  assumes "(0 \<le> key1 \<and> key1 \<le> 11 \<and> 0 \<le> key2 \<and> key2 \<le> 11) \<or> key1 = key2"
  shows "\<exists>ks. keySimilarity key1 mode1 key2 mode2 = Inr ks \<and>
              keySimilarity key2 mode2 key1 mode1 = Inr ks"
proof (cases "key1 = key2")
  case True
  have "keySimilarity key1 mode1 key1 mode2 = keySimilarity key1 mode2 key1 mode1"
    by (simp add: keySimilarity_def)
  moreover have "keySimilarity key1 mode1 key1 mode2 = Inr (if mode1 = mode2 then 1 else 0.7)"
    by (simp add: keySimilarity_def)
  ultimately show ?thesis using True by metis
next
  case False
  with assms have r: "0 \<le> key1" "key1 \<le> 11" "0 \<le> key2" "key2 \<le> 11" by simp_all
  obtain ks where "keySimilarity key1 mode1 key2 mode2 = Inr ks"
    using keySimilarity_bounds [OF r, of mode1 mode2] by blast
  moreover have "keySimilarity key2 mode2 key1 mode1 = keySimilarity key1 mode1 key2 mode2"
    by (rule keySimilarity_sym [OF r, symmetric])
  ultimately show ?thesis by simp
qed

text \<open>
  Claim C10, as amended. For feature vectors whose keys both lie in 0..11, or are equal,
  \<^verbatim>\<open>calculateMatch\<close> in the two orders returns results with equal \<open>overallScore\<close>, equal
  \<open>confidence\<close> and equal scores of the three layers, whatever the clock readings; the
  \<open>details\<close> of each explanation are computed from the first argument alone, and the two
  results differ as a whole for the songs \<open>identicalSong\<close> and \<open>oppositeSong\<close>. With
  different keys of which one is outside 0..11 the two orders do not both return a result,
  as \<open>keylessSong\<close> shows below.
\<close>

theorem calculateMatch_symmetric_scores:
  assumes "(0 \<le> key f1 \<and> key f1 \<le> 11 \<and> 0 \<le> key f2 \<and> key f2 \<le> 11) \<or> key f1 = key f2"
  shows "(\<exists>r12 r21.
            calculateMatch s e f1 f2 = Inr r12 \<and> calculateMatch s' e' f2 f1 = Inr r21 \<and>
            overallScore r12 = overallScore r21 \<and> confidence r12 = confidence r21 \<and>
            score (layer1 (breakdown r12)) = score (layer1 (breakdown r21)) \<and>
            score (layer2 (breakdown r12)) = score (layer2 (breakdown r21)) \<and>
            score (layer3 (breakdown r12)) = score (layer3 (breakdown r21)) \<and>
            details (explanation r12) =
              \<lparr>mood = getMoodDescription (valence f1) (energy f1),
               rhythm = getRhythmDescription (tempo f1) (danceability f1),
               harmony = getHarmonyDescription (key f1) (mode f1),
               style = getStyleDescription (genres f1) (artist f1)\<rparr> \<and>
            details (explanation r21) =
              \<lparr>mood = getMoodDescription (valence f2) (energy f2),
               rhythm = getRhythmDescription (tempo f2) (danceability f2),
               harmony = getHarmonyDescription (key f2) (mode f2),
               style = getStyleDescription (genres f2) (artist f2)\<rparr>) \<and>
         calculateMatch 0 0 identicalSong oppositeSong \<noteq>
         calculateMatch 0 0 oppositeSong identicalSong"
proof -
  obtain ks where ks: "keySimilarity (key f1) (mode f1) (key f2) (mode f2) = Inr ks"
    and ks': "keySimilarity (key f2) (mode f2) (key f1) (mode f1) = Inr ks"
    using keySimilarity_both_orders [OF assms, of "mode f1" "mode f2"] by blast
  from calculateMatch_result [OF ks, of s e] obtain r12 where
    "\<exists>l2. calculateMatch s e f1 f2 = Inr r12 \<and> calculateLayer2 f1 f2 = Inr l2 \<and>
           score l2 =
             (ks * 0.1 + timeSignatureSimilarity (timeSignature f1) (timeSignature f2) * 0.05 +
              loudnessSimilarity (loudness f1) (loudness f2) * 0.05 +
              durationSimilarity (durationMs f1) (durationMs f2) * 0.05) / 0.25 \<and>
           overallScore r12 =
             Math_round ((score (calculateLayer1 f1 f2) * 0.6 + score l2 * 0.25 +
                          score (calculateLayer3 f1 f2) * 0.15) * 100) \<and>
           confidence r12 = calculateConfidence f1 f2 \<and>
           breakdown r12 = \<lparr>layer1 = calculateLayer1 f1 f2, layer2 = l2,
                           layer3 = calculateLayer3 f1 f2\<rparr> \<and>
           details (explanation r12) =
             \<lparr>mood = getMoodDescription (valence f1) (energy f1),
              rhythm = getRhythmDescription (tempo f1) (danceability f1),
              harmony = getHarmonyDescription (key f1) (mode f1),
              style = getStyleDescription (genres f1) (artist f1)\<rparr>" ..
  then obtain l2 where
    r12: "calculateMatch s e f1 f2 = Inr r12 \<and> calculateLayer2 f1 f2 = Inr l2 \<and>
           score l2 =
             (ks * 0.1 + timeSignatureSimilarity (timeSignature f1) (timeSignature f2) * 0.05 +
              loudnessSimilarity (loudness f1) (loudness f2) * 0.05 +
              durationSimilarity (durationMs f1) (durationMs f2) * 0.05) / 0.25 \<and>
           overallScore r12 =
             Math_round ((score (calculateLayer1 f1 f2) * 0.6 + score l2 * 0.25 +
                          score (calculateLayer3 f1 f2) * 0.15) * 100) \<and>
           confidence r12 = calculateConfidence f1 f2 \<and>
           breakdown r12 = \<lparr>layer1 = calculateLayer1 f1 f2, layer2 = l2,
                           layer3 = calculateLayer3 f1 f2\<rparr> \<and>
           details (explanation r12) =
             \<lparr>mood = getMoodDescription (valence f1) (energy f1),
              rhythm = getRhythmDescription (tempo f1) (danceability f1),
              harmony = getHarmonyDescription (key f1) (mode f1),
              style = getStyleDescription (genres f1) (artist f1)\<rparr>" ..
  from calculateMatch_result [OF ks', of s' e'] obtain r21 where
    "\<exists>l2'. calculateMatch s' e' f2 f1 = Inr r21 \<and> calculateLayer2 f2 f1 = Inr l2' \<and>
           score l2' =
             (ks * 0.1 + timeSignatureSimilarity (timeSignature f2) (timeSignature f1) * 0.05 +
              loudnessSimilarity (loudness f2) (loudness f1) * 0.05 +
              durationSimilarity (durationMs f2) (durationMs f1) * 0.05) / 0.25 \<and>
           overallScore r21 =
             Math_round ((score (calculateLayer1 f2 f1) * 0.6 + score l2' * 0.25 +
                          score (calculateLayer3 f2 f1) * 0.15) * 100) \<and>
           confidence r21 = calculateConfidence f2 f1 \<and>
           breakdown r21 = \<lparr>layer1 = calculateLayer1 f2 f1, layer2 = l2',
                           layer3 = calculateLayer3 f2 f1\<rparr> \<and>
           details (explanation r21) =
             \<lparr>mood = getMoodDescription (valence f2) (energy f2),
              rhythm = getRhythmDescription (tempo f2) (danceability f2),
              harmony = getHarmonyDescription (key f2) (mode f2),
              style = getStyleDescription (genres f2) (artist f2)\<rparr>" ..
  then obtain l2' where
    r21: "calculateMatch s' e' f2 f1 = Inr r21 \<and> calculateLayer2 f2 f1 = Inr l2' \<and>
           score l2' =
             (ks * 0.1 + timeSignatureSimilarity (timeSignature f2) (timeSignature f1) * 0.05 +
              loudnessSimilarity (loudness f2) (loudness f1) * 0.05 +
              durationSimilarity (durationMs f2) (durationMs f1) * 0.05) / 0.25 \<and>
           overallScore r21 =
             Math_round ((score (calculateLayer1 f2 f1) * 0.6 + score l2' * 0.25 +
                          score (calculateLayer3 f2 f1) * 0.15) * 100) \<and>
           confidence r21 = calculateConfidence f2 f1 \<and>
           breakdown r21 = \<lparr>layer1 = calculateLayer1 f2 f1, layer2 = l2',
                           layer3 = calculateLayer3 f2 f1\<rparr> \<and>
           details (explanation r21) =
             \<lparr>mood = getMoodDescription (valence f2) (energy f2),
              rhythm = getRhythmDescription (tempo f2) (danceability f2),
              harmony = getHarmonyDescription (key f2) (mode f2),
              style = getStyleDescription (genres f2) (artist f2)\<rparr>" ..
  note l2 = r12 [THEN conjunct2, THEN conjunct2, THEN conjunct1]
  note l2' = r21 [THEN conjunct2, THEN conjunct2, THEN conjunct1]
  have s1: "score (calculateLayer1 f1 f2) = score (calculateLayer1 f2 f1)"
    unfolding layer1_score
    by (simp only: continuousSimilarity_sym [of "valence f1"]
          continuousSimilarity_sym [of "energy f1"] continuousSimilarity_sym [of "danceability f1"]
          continuousSimilarity_sym [of "acousticness f1"] tempoSimilarity_sym [of "tempo f1"])
  have s2: "score l2 = score l2'"
    unfolding l2 l2'
    by (simp only: timeSignatureSimilarity_sym [of "timeSignature f1"]
          loudnessSimilarity_sym [of "loudness f1"] durationSimilarity_sym [of "durationMs f1"])
  have s3: "score (calculateLayer3 f1 f2) = score (calculateLayer3 f2 f1)"
    unfolding layer3_score
    by (simp only: genreSimilarity_sym [of "genres_or_empty f1"]
          artistSimilarity_sym [of "artist f1"] eraSimilarity_sym [of "releaseYear f1"])
  have c: "confidence r12 = confidence r21"
    using r12 r21 calculateConfidence_sym [of f1 f2] by simp
  have o: "overallScore r12 = overallScore r21"
    using r12 r21 by (simp only: s1 s2 s3)
  have first: "\<exists>r12 r21.
            calculateMatch s e f1 f2 = Inr r12 \<and> calculateMatch s' e' f2 f1 = Inr r21 \<and>
            overallScore r12 = overallScore r21 \<and> confidence r12 = confidence r21 \<and>
            score (layer1 (breakdown r12)) = score (layer1 (breakdown r21)) \<and>
            score (layer2 (breakdown r12)) = score (layer2 (breakdown r21)) \<and>
            score (layer3 (breakdown r12)) = score (layer3 (breakdown r21)) \<and>
            details (explanation r12) =
              \<lparr>mood = getMoodDescription (valence f1) (energy f1),
               rhythm = getRhythmDescription (tempo f1) (danceability f1),
               harmony = getHarmonyDescription (key f1) (mode f1),
               style = getStyleDescription (genres f1) (artist f1)\<rparr> \<and>
            details (explanation r21) =
              \<lparr>mood = getMoodDescription (valence f2) (energy f2),
               rhythm = getRhythmDescription (tempo f2) (danceability f2),
               harmony = getHarmonyDescription (key f2) (mode f2),
               style = getStyleDescription (genres f2) (artist f2)\<rparr>"
    using r12 r21 o c s1 s2 s3 by simp
  have st: "fifths_steps 0 6 = 6" "fifths_steps 6 0 = 6" by code_simp+
  have k1: "keySimilarity (key identicalSong) (mode identicalSong)
              (key oppositeSong) (mode oppositeSong) = Inr 0"
    by (simp add: keySimilarity_value identicalSong_def oppositeSong_def st)
  have k2: "keySimilarity (key oppositeSong) (mode oppositeSong)
              (key identicalSong) (mode identicalSong) = Inr 0"
    by (simp add: keySimilarity_value identicalSong_def oppositeSong_def st)
  have m1: "map_sum id (\<lambda>r. mood (details (explanation r)))
              (calculateMatch 0 0 identicalSong oppositeSong) =
            Inr (getMoodDescription (valence identicalSong) (energy identicalSong))"
    using calculateMatch_result [OF k1, of 0 0] by (elim exE conjE) simp
  have m2: "map_sum id (\<lambda>r. mood (details (explanation r)))
              (calculateMatch 0 0 oppositeSong identicalSong) =
            Inr (getMoodDescription (valence oppositeSong) (energy oppositeSong))"
    using calculateMatch_result [OF k2, of 0 0] by (elim exE conjE) simp
  have second: "calculateMatch 0 0 identicalSong oppositeSong \<noteq>
         calculateMatch 0 0 oppositeSong identicalSong"
  proof
    assume "calculateMatch 0 0 identicalSong oppositeSong =
         calculateMatch 0 0 oppositeSong identicalSong"
    with m1 m2 have "getMoodDescription (valence identicalSong) (energy identicalSong) =
        getMoodDescription (valence oppositeSong) (energy oppositeSong)"
      by (simp only: sum.inject)
    with mood_differs show False by (rule notE)
  qed
  from first second show ?thesis by (rule conjI)
qed

theorem calculateMatch_symmetric_scores_witness:
  "((0::int) \<le> key identicalSong \<and> key identicalSong \<le> 11 \<and>
    0 \<le> key oppositeSong \<and> key oppositeSong \<le> 11) \<and>
   map_sum id overallScore (calculateMatch 0 0 identicalSong oppositeSong) =
   map_sum id overallScore (calculateMatch 0 0 oppositeSong identicalSong) \<and>
   key keylessSong = key (keylessSong\<lparr>mode := 0\<rparr>) \<and>
   map_sum id overallScore (calculateMatch 0 0 keylessSong (keylessSong\<lparr>mode := 0\<rparr>)) =
   map_sum id overallScore (calculateMatch 0 0 (keylessSong\<lparr>mode := 0\<rparr>) keylessSong)"
proof -
  have h: "(0 \<le> key identicalSong \<and> key identicalSong \<le> 11 \<and>
            0 \<le> key oppositeSong \<and> key oppositeSong \<le> 11) \<or>
           key identicalSong = key oppositeSong"
    by (simp add: identicalSong_def oppositeSong_def)
  have h': "(0 \<le> key keylessSong \<and> key keylessSong \<le> 11 \<and>
             0 \<le> key (keylessSong\<lparr>mode := 0\<rparr>) \<and> key (keylessSong\<lparr>mode := 0\<rparr>) \<le> 11) \<or>
            key keylessSong = key (keylessSong\<lparr>mode := 0\<rparr>)"
    by simp
  from calculateMatch_symmetric_scores [OF h, of 0 0 0 0] obtain r12 r21 where
    a: "calculateMatch 0 0 identicalSong oppositeSong = Inr r12"
    "calculateMatch 0 0 oppositeSong identicalSong = Inr r21"
    "overallScore r12 = overallScore r21"
    by blast
  from calculateMatch_symmetric_scores [OF h', of 0 0 0 0] obtain q12 q21 where
    b: "calculateMatch 0 0 keylessSong (keylessSong\<lparr>mode := 0\<rparr>) = Inr q12"
    "calculateMatch 0 0 (keylessSong\<lparr>mode := 0\<rparr>) keylessSong = Inr q21"
    "overallScore q12 = overallScore q21"
    by blast
  have r: "0 \<le> key identicalSong \<and> key identicalSong \<le> 11 \<and>
           0 \<le> key oppositeSong \<and> key oppositeSong \<le> 11"
    by (simp add: identicalSong_def oppositeSong_def)
  from a b r show ?thesis by simp
qed

text \<open>
  The claim as stated, for every pair of feature vectors, fails: with the key - 1 in the
  first argument the read \<^verbatim>\<open>CIRCLE_DISTANCE_MATRIX[-1][6]\<close> throws, and with it in the second
  the read \<^verbatim>\<open>CIRCLE_DISTANCE_MATRIX[6][-1]\<close> is \<^verbatim>\<open>undefined\<close> and a result whose scores are
  \<^verbatim>\<open>NaN\<close> is returned. The two orders do not give equal scores.
\<close>

theorem calculateMatch_symmetric_scores_counterexample:
  "calculateMatch 0 0 keylessSong oppositeSong = Inl TypeError \<and>
   calculateMatch 0 0 oppositeSong keylessSong = Inl NotANumber"
proof -
  have m: "js_index CIRCLE_DISTANCE_MATRIX (- 1) = None"
    "js_index CIRCLE_DISTANCE_MATRIX 6 = Some [6, 1, 4, 3, 2, 5, 0, 5, 2, 3, 4, 1]"
    "js_index [6, 1, 4, 3, 2, 5, 0, 5, 2, 3, 4, 1] (- 1) = (None :: int option)"
    by (simp_all add: js_index_def matrix_table)
  have a: "keySimilarity (key keylessSong) (mode keylessSong)
             (key oppositeSong) (mode oppositeSong) = Inl TypeError"
    by (simp add: keySimilarity_def keylessSong_def identicalSong_def oppositeSong_def m)
  have b: "keySimilarity (key oppositeSong) (mode oppositeSong)
             (key keylessSong) (mode keylessSong) = Inl NotANumber"
    by (simp add: keySimilarity_def keylessSong_def identicalSong_def oppositeSong_def m)
  show ?thesis
    by (simp add: calculateMatch_def calculateLayer2_def a b Let_def)
qed

section \<open>Properties of the caches\<close>

subsection \<open>The key of the result cache\<close>

lemma sort_pair: "sort [a, b] = sort [b, (a :: 'a :: linorder)]"
  by auto

text \<open>
  Claim C3. The key of the result cache does not depend on the order of the two song
  identifiers, so the read and the write of \<^verbatim>\<open>getMatch\<close> address the same entry whichever
  way round the identifiers are given.
\<close>

theorem getCacheKey_order_independent:
  "getCacheKey a b = getCacheKey b a \<and>
   getCachedMatch codec r a b = getCachedMatch codec r b a \<and>
   cacheMatch codec r a b result = cacheMatch codec r b a result"
proof -
  have k: "getCacheKey a b = getCacheKey b a"
    by (simp only: getCacheKey_def sort_pair [of a b])
  show ?thesis
    by (simp only: k getCachedMatch_def cacheMatch_def)
qed

subsection \<open>Cache statistics\<close>

lemma find_oldest_greatest:
  assumes "TTL \<notin> set (failing r)"
  shows "\<exists>res. find_oldest r ks oldest m = Inr res \<and>
           (res = oldest \<and> (\<forall>k\<in>set ks. redis_ttl r k = Inr (projr (redis_ttl r k)) \<and>
                                         projr (redis_ttl r k) \<le> m) \<or>
            (\<exists>k\<in>set ks. res = Some k \<and> m < projr (redis_ttl r k) \<and>
               (\<forall>k'\<in>set ks. projr (redis_ttl r k') \<le> projr (redis_ttl r k))))"
proof (induction ks arbitrary: oldest m)
  case Nil
  then show ?case by simp
next
  case (Cons k ks)
  obtain t where t: "redis_ttl r k = Inr t"
    using assms by (simp add: redis_ttl_def)
  show ?case
  proof (cases "t > m")
    case True
    from Cons.IH [of "Some k" t] obtain res where
      res: "find_oldest r ks (Some k) t = Inr res"
      and d: "res = Some k \<and> (\<forall>k\<in>set ks. redis_ttl r k = Inr (projr (redis_ttl r k)) \<and>
                                         projr (redis_ttl r k) \<le> t) \<or>
            (\<exists>k'\<in>set ks. res = Some k' \<and> t < projr (redis_ttl r k') \<and>
               (\<forall>k''\<in>set ks. projr (redis_ttl r k'') \<le> projr (redis_ttl r k')))"
      by blast
    from d show ?thesis
    proof
      assume "res = Some k \<and> (\<forall>k\<in>set ks. redis_ttl r k = Inr (projr (redis_ttl r k)) \<and>
                                         projr (redis_ttl r k) \<le> t)"
      then show ?thesis using True t res by auto
    next
      assume "\<exists>k'\<in>set ks. res = Some k' \<and> t < projr (redis_ttl r k') \<and>
               (\<forall>k''\<in>set ks. projr (redis_ttl r k'') \<le> projr (redis_ttl r k'))"
      then obtain k' where "k' \<in> set ks" "res = Some k'" "t < projr (redis_ttl r k')"
        "\<forall>k''\<in>set ks. projr (redis_ttl r k'') \<le> projr (redis_ttl r k')" by blast
      then show ?thesis using True t res by (intro exI [of _ res]) auto
    qed
  next
    case False
    from Cons.IH [of oldest m] obtain res where
      res: "find_oldest r ks oldest m = Inr res"
      and d: "res = oldest \<and> (\<forall>k\<in>set ks. redis_ttl r k = Inr (projr (redis_ttl r k)) \<and>
                                         projr (redis_ttl r k) \<le> m) \<or>
            (\<exists>k'\<in>set ks. res = Some k' \<and> m < projr (redis_ttl r k') \<and>
               (\<forall>k''\<in>set ks. projr (redis_ttl r k'') \<le> projr (redis_ttl r k')))"
      by blast
    from d show ?thesis
    proof
      assume "res = oldest \<and> (\<forall>k\<in>set ks. redis_ttl r k = Inr (projr (redis_ttl r k)) \<and>
                                         projr (redis_ttl r k) \<le> m)"
      then show ?thesis using False t res by auto
    next
      assume "\<exists>k'\<in>set ks. res = Some k' \<and> m < projr (redis_ttl r k') \<and>
               (\<forall>k''\<in>set ks. projr (redis_ttl r k'') \<le> projr (redis_ttl r k'))"
      then obtain k' where "k' \<in> set ks" "res = Some k'" "m < projr (redis_ttl r k')"
        "\<forall>k''\<in>set ks. projr (redis_ttl r k'') \<le> projr (redis_ttl r k')" by blast
      then show ?thesis using False t res by (intro exI [of _ res]) auto
    qed
  qed
qed

text \<open>
  Claim C9. \<^verbatim>\<open>getCacheStats\<close> looks at no more than the first hundred keys and compares their
  remaining time to live, but it keeps the greatest (lemma \<open>find_oldest_greatest\<close>): on
  \<open>redis_two\<close> the key reported as oldest is \<open>match:c:d\<close>, written last, with 604800 seconds
  left, and not \<open>match:a:b\<close>, cached for 604700 seconds, with 100 seconds left.
\<close>

theorem getCacheStats_reports_newest:
  "getCacheStats redis_two =
     (Inr \<lparr>totalKeys = 2, estimatedSize = 34, oldestKey = Some ''match:c:d''\<rparr>, []) \<and>
   redis_ttl redis_two ''match:a:b'' = Inr 100 \<and>
   redis_ttl redis_two ''match:c:d'' = Inr 604800"
  by (simp add: getCacheStats_def redis_two_def redis_keys_def redis_ttl_def redis_get_def
        CACHE_PREFIX_def Math_round_def)

subsection \<open>Failures of the stores\<close>

lemma getCachedMatch_read_failure:
  "GET \<in> set (failing r) \<Longrightarrow>
   getCachedMatch codec r a b = (None, [Log Warn ''Error retrieving cached match:''])"
  by (simp add: getCachedMatch_def redis_get_def)

lemma cacheMatch_write_failure:
  "SETEX \<in> set (failing r) \<Longrightarrow>
   cacheMatch codec r a b res =
     (Inl (RedisError SETEX), r, [Log Error ''Error caching match result:''])"
  by (simp add: cacheMatch_def redis_setex_def)

lemma getMatch_miss:
  assumes "bypassCache \<or> fst (getCachedMatch codec r a b) = None"
  shows "fst (getMatch codec s e r f1 f2 a b bypassCache) = calculateMatch s e f1 f2"
proof (cases "calculateMatch s e f1 f2")
  case (Inl err)
  with assms show ?thesis
    by (auto simp add: getMatch_def Let_def split: prod.splits option.splits)
next
  case (Inr res)
  with assms show ?thesis
    by (auto simp add: getMatch_def Let_def split: prod.splits option.splits sum.splits)
qed

lemma getMatch_write_failure:
  assumes "bypassCache \<or> fst (getCachedMatch codec r a b) = None"
    and "SETEX \<in> set (failing r)"
    and "calculateMatch s e f1 f2 = Inr res"
  shows "fst (getMatch codec s e r f1 f2 a b bypassCache) = Inr res \<and>
         fst (snd (getMatch codec s e r f1 f2 a b bypassCache)) = r \<and>
         Log Error ''Failed to cache match result:''
           \<in> set (snd (snd (getMatch codec s e r f1 f2 a b bypassCache)))"
  using assms
  by (auto simp add: getMatch_def Let_def cacheMatch_write_failure split: prod.splits option.splits)

lemma getCachedSong_read_failure:
  "FindUnique \<in> set (db_failing db) \<Longrightarrow>
   getCachedSong codec db now sId p = (None, db, [Log Error ''Error retrieving cached song:''])"
  by (simp add: getCachedSong_def findUnique_def)

lemma cacheSong_write_failure:
  "Upsert \<in> set (db_failing db) \<Longrightarrow>
   cacheSong codec db song = (db, [Log Error ''Error caching song:''])"
  by (simp add: cacheSong_def prisma_upsert_def)

lemma getSongById_miss:
  assumes "fst (getCachedSong codec db now sId p) = None"
    and "getTrack spotify sId = Inr t" and "convertToCachedSong spotify t = Inr song"
  shows "fst (getSongById codec spotify db now sId p) = Inr song"
  using assms by (auto simp add: getSongById_def Let_def split: prod.splits option.splits)

text \<open>
  Claim C2. A failure of the store is never passed on to the caller. A rejected read of the
  result cache is a miss, logged as a warning, and the match is computed; a rejected write is
  logged twice (by \<^verbatim>\<open>cacheMatch\<close> and by the \<^verbatim>\<open>.catch\<close> handler) and dropped, the store is
  left as it was and the computed result is returned. In the song cache a rejected read is a
  miss, a rejected write is logged and dropped, and after any miss the fetched song is
  returned.
\<close>

theorem cache_failure_never_propagates:
  "(GET \<in> set (failing r) \<longrightarrow>
      getCachedMatch mcodec r a b = (None, [Log Warn ''Error retrieving cached match:'']) \<and>
      fst (getMatch mcodec s e r fa fb a b bypassCache) = calculateMatch s e fa fb) \<and>
   (SETEX \<in> set (failing r) \<longrightarrow>
      cacheMatch mcodec r a b res =
        (Inl (RedisError SETEX), r, [Log Error ''Error caching match result:''])) \<and>
   (SETEX \<in> set (failing r) \<and> (bypassCache \<or> fst (getCachedMatch mcodec r a b) = None) \<and>
    calculateMatch s e fa fb = Inr res \<longrightarrow>
      fst (getMatch mcodec s e r fa fb a b bypassCache) = Inr res \<and>
      fst (snd (getMatch mcodec s e r fa fb a b bypassCache)) = r \<and>
      Log Error ''Failed to cache match result:''
        \<in> set (snd (snd (getMatch mcodec s e r fa fb a b bypassCache)))) \<and>
   (FindUnique \<in> set (db_failing db) \<longrightarrow>
      getCachedSong scodec db now sId p =
        (None, db, [Log Error ''Error retrieving cached song:''])) \<and>
   (Upsert \<in> set (db_failing db) \<longrightarrow>
      cacheSong scodec db song = (db, [Log Error ''Error caching song:''])) \<and>
   (fst (getCachedSong scodec db now sId p) = None \<and> getTrack spotify sId = Inr t \<and>
    convertToCachedSong spotify t = Inr song \<longrightarrow>
      fst (getSongById scodec spotify db now sId p) = Inr song)"
proof (intro conjI impI)
  assume g: "GET \<in> set (failing r)"
  then show "getCachedMatch mcodec r a b = (None, [Log Warn ''Error retrieving cached match:''])"
    by (rule getCachedMatch_read_failure)
  then have "fst (getCachedMatch mcodec r a b) = None" by simp
  then show "fst (getMatch mcodec s e r fa fb a b bypassCache) = calculateMatch s e fa fb"
    by (intro getMatch_miss) simp
next
  assume "SETEX \<in> set (failing r)"
  then show "cacheMatch mcodec r a b res =
        (Inl (RedisError SETEX), r, [Log Error ''Error caching match result:''])"
    by (rule cacheMatch_write_failure)
next
  assume h: "SETEX \<in> set (failing r) \<and>
    (bypassCache \<or> fst (getCachedMatch mcodec r a b) = None) \<and>
    calculateMatch s e fa fb = Inr res"
  then have w: "fst (getMatch mcodec s e r fa fb a b bypassCache) = Inr res \<and>
         fst (snd (getMatch mcodec s e r fa fb a b bypassCache)) = r \<and>
         Log Error ''Failed to cache match result:''
           \<in> set (snd (snd (getMatch mcodec s e r fa fb a b bypassCache)))"
    by (intro getMatch_write_failure) simp_all
  from w show "fst (getMatch mcodec s e r fa fb a b bypassCache) = Inr res" by (rule conjunct1)
  from w show "fst (snd (getMatch mcodec s e r fa fb a b bypassCache)) = r" by simp
  from w show "Log Error ''Failed to cache match result:''
           \<in> set (snd (snd (getMatch mcodec s e r fa fb a b bypassCache)))" by simp
next
  assume "FindUnique \<in> set (db_failing db)"
  then show "getCachedSong scodec db now sId p =
        (None, db, [Log Error ''Error retrieving cached song:''])"
    by (rule getCachedSong_read_failure)
next
  assume "Upsert \<in> set (db_failing db)"
  then show "cacheSong scodec db song = (db, [Log Error ''Error caching song:''])"
    by (rule cacheSong_write_failure)
next
  assume "fst (getCachedSong scodec db now sId p) = None \<and> getTrack spotify sId = Inr t \<and>
    convertToCachedSong spotify t = Inr song"
  then show "fst (getSongById scodec spotify db now sId p) = Inr song"
    by (intro getSongById_miss [of scodec db now sId p spotify t song]) simp_all
qed

lemma calculateMatch_total:
  assumes "0 \<le> key f1" "key f1 \<le> 11" "0 \<le> key f2" "key f2 \<le> 11"
  shows "calculateMatch s e f1 f2 = Inr (projr (calculateMatch s e f1 f2))"
proof -
  obtain ks where "keySimilarity (key f1) (mode f1) (key f2) (mode f2) = Inr ks"
    using keySimilarity_bounds [OF assms, of "mode f1" "mode f2"] by blast
  from calculateMatch_result [OF this, of s e] obtain r where
    "calculateMatch s e f1 f2 = Inr r" by blast
  then show ?thesis by simp
qed

theorem cache_failure_never_propagates_witness:
  "GET \<in> set (failing redis_down) \<and> SETEX \<in> set (failing redis_down) \<and>
   FindUnique \<in> set (db_failing db_down) \<and> Upsert \<in> set (db_failing db_down) \<and>
   fst (getMatch null_codec 0 1 redis_down identicalSong oppositeSong ''a'' ''b'' False) =
     calculateMatch 0 1 identicalSong oppositeSong \<and>
   calculateMatch 0 1 identicalSong oppositeSong =
     Inr (projr (calculateMatch 0 1 identicalSong oppositeSong)) \<and>
   Log Error ''Failed to cache match result:''
     \<in> set (snd (snd (getMatch null_codec 0 1 redis_down identicalSong oppositeSong
                         ''a'' ''b'' False))) \<and>
   fst (getSongById id_codec spotify_one db_down 5 ''s1'' ''spotify'') =
     Inr (song1\<lparr>song_cachedAt := 2000, song_expiresAt := 2000 + 2592000000\<rparr>)"
proof -
  have h: "GET \<in> set (failing redis_down)" "SETEX \<in> set (failing redis_down)"
    "FindUnique \<in> set (db_failing db_down)" "Upsert \<in> set (db_failing db_down)"
    by (simp_all add: redis_down_def db_down_def)
  have c: "calculateMatch 0 1 identicalSong oppositeSong =
     Inr (projr (calculateMatch 0 1 identicalSong oppositeSong))"
    by (rule calculateMatch_total) (simp_all add: identicalSong_def oppositeSong_def)
  have t: "getTrack spotify_one ''s1'' = Inr ''s1''"
    "convertToCachedSong spotify_one ''s1'' =
       Inr (song1\<lparr>song_cachedAt := 2000, song_expiresAt := 2000 + 2592000000\<rparr>)"
    by (simp_all add: spotify_one_def)
  note inst = cache_failure_never_propagates
    [where r = redis_down and mcodec = null_codec and a = "''a''" and b = "''b''"
       and s = 0 and e = 1 and fa = identicalSong and fb = oppositeSong
       and bypassCache = False
       and res = "projr (calculateMatch 0 1 identicalSong oppositeSong)"
       and db = db_down and scodec = id_codec and now = 5 and sId = "''s1''"
       and p = "''spotify''" and spotify = spotify_one and t = "''s1''"
       and song = "song1\<lparr>song_cachedAt := 2000, song_expiresAt := 2000 + 2592000000\<rparr>"]
  from inst h c t show ?thesis by simp
qed

subsection \<open>Expiry in the song cache\<close>

lemma contacted_simps:
  "contacted [] = False"
  "contacted (Log l m # evs) = contacted evs"
  "contacted (SpotifyRequest s # evs) = True"
  "contacted (xs @ ys) = (contacted xs \<or> contacted ys)"
  by (simp_all add: contacted_def)

lemma getCachedSong_not_contacted: "\<not> contacted (snd (snd (getCachedSong codec db now sId p)))"
  by (auto simp add: getCachedSong_def deleteCachedSong_def contacted_simps
        split: sum.splits option.splits parsed.splits prod.splits)

lemma getCachedSong_Some_iff:
  "(\<exists>song. fst (getCachedSong codec db now sId p) = Some song) =
     (FindUnique \<notin> set (db_failing db) \<and>
      (\<exists>row song. songCache db (p, sId) = Some row \<and> now \<le> expiresAt row \<and>
                  parse codec (data row) = Parsed song))"
  by (auto simp add: getCachedSong_def findUnique_def
        split: option.splits parsed.splits prod.splits)

lemma getSongById_contacted_iff:
  "contacted (snd (snd (getSongById codec spotify db now sId p))) =
     (fst (getCachedSong codec db now sId p) = None)"
proof (cases "getCachedSong codec db now sId p")
  case (fields c db1 evs1)
  have nc: "\<not> contacted evs1"
    using getCachedSong_not_contacted [of codec db now sId p] fields by simp
  show ?thesis
    using nc
    by (auto simp add: getSongById_def fields Let_def contacted_simps
          split: option.splits sum.splits prod.splits)
qed

lemma getCachedSong_fresh:
  assumes "FindUnique \<notin> set (db_failing db)" and "songCache db (p, sId) = Some row"
    and "now \<le> expiresAt row" and "parse codec (data row) = Parsed song"
  shows "getCachedSong codec db now sId p = (Some song, db, [])"
  using assms by (simp add: getCachedSong_def findUnique_def)

lemma getCachedSong_expired:
  assumes "FindUnique \<notin> set (db_failing db)" and "Delete \<notin> set (db_failing db)"
    and "songCache db (p, sId) = Some row" and "expiresAt row < now"
  shows "getCachedSong codec db now sId p =
           (None, db\<lparr>songCache := (songCache db)((p, sId) := None)\<rparr>,
            [Log Debug (''Cache expired for song: '' @ sId),
             Log Debug (''Deleted cached song: '' @ sId)])"
  using assms
  by (simp add: getCachedSong_def findUnique_def deleteCachedSong_def prisma_delete_def)

lemma cacheSong_stores:
  assumes "Upsert \<notin> set (db_failing db)"
  shows "\<exists>stored. songCache (fst (cacheSong codec db song)) (song_platform song, song_id song) =
            Some stored \<and> data stored = stringify codec song \<and>
            cachedAt stored = song_cachedAt song \<and> expiresAt stored = song_expiresAt song"
  using assms by (simp add: cacheSong_def prisma_upsert_def Let_def split: option.splits)

text \<open>
  Claim C8, as amended. \<^verbatim>\<open>getSongById\<close> answers without a request to Spotify exactly when
  the row can be read, is stored with \<open>expiresAt\<close> not earlier than the current time
  (\<open>now \<le> expiresAt\<close>) and its data parse; it then returns the stored song and leaves the table
  unchanged. A stored row with \<open>expiresAt < now\<close> is deleted, the song is fetched from Spotify,
  stored and returned.
\<close>

theorem getSongById_hit_iff_not_expired:
  "(\<not> contacted (snd (snd (getSongById codec spotify db now sId p)))) =
     (FindUnique \<notin> set (db_failing db) \<and>
      (\<exists>row song. songCache db (p, sId) = Some row \<and> now \<le> expiresAt row \<and>
                  parse codec (data row) = Parsed song)) \<and>
   (FindUnique \<notin> set (db_failing db) \<and> songCache db (p, sId) = Some row \<and>
    now \<le> expiresAt row \<and> parse codec (data row) = Parsed song \<longrightarrow>
      getSongById codec spotify db now sId p =
        (Inr song, db, [Log Debug (''Cache hit for song: '' @ sId)])) \<and>
   (FindUnique \<notin> set (db_failing db) \<and> Delete \<notin> set (db_failing db) \<and>
    Upsert \<notin> set (db_failing db) \<and> songCache db (p, sId) = Some row \<and>
    expiresAt row < now \<and> getTrack spotify sId = Inr t \<and>
    convertToCachedSong spotify t = Inr fetched \<longrightarrow>
      fst (snd (getCachedSong codec db now sId p)) =
        db\<lparr>songCache := (songCache db)((p, sId) := None)\<rparr> \<and>
      contacted (snd (snd (getSongById codec spotify db now sId p))) \<and>
      fst (getSongById codec spotify db now sId p) = Inr fetched \<and>
      (\<exists>stored. songCache (fst (snd (getSongById codec spotify db now sId p)))
                  (song_platform fetched, song_id fetched) = Some stored \<and>
                data stored = stringify codec fetched \<and>
                expiresAt stored = song_expiresAt fetched))"
proof (intro conjI impI)
  show "(\<not> contacted (snd (snd (getSongById codec spotify db now sId p)))) =
     (FindUnique \<notin> set (db_failing db) \<and>
      (\<exists>row song. songCache db (p, sId) = Some row \<and> now \<le> expiresAt row \<and>
                  parse codec (data row) = Parsed song))"
    unfolding getSongById_contacted_iff getCachedSong_Some_iff [symmetric] by auto
next
  assume "FindUnique \<notin> set (db_failing db) \<and> songCache db (p, sId) = Some row \<and>
    now \<le> expiresAt row \<and> parse codec (data row) = Parsed song"
  then have "getCachedSong codec db now sId p = (Some song, db, [])"
    by (elim conjE) (rule getCachedSong_fresh)
  then show "getSongById codec spotify db now sId p =
        (Inr song, db, [Log Debug (''Cache hit for song: '' @ sId)])"
    by (simp add: getSongById_def)
next
  assume h: "FindUnique \<notin> set (db_failing db) \<and> Delete \<notin> set (db_failing db) \<and>
    Upsert \<notin> set (db_failing db) \<and> songCache db (p, sId) = Some row \<and>
    expiresAt row < now \<and> getTrack spotify sId = Inr t \<and>
    convertToCachedSong spotify t = Inr fetched"
  let ?db1 = "db\<lparr>songCache := (songCache db)((p, sId) := None)\<rparr>"
  from h have g: "getCachedSong codec db now sId p =
           (None, ?db1,
            [Log Debug (''Cache expired for song: '' @ sId),
             Log Debug (''Deleted cached song: '' @ sId)])"
    by (elim conjE) (rule getCachedSong_expired)
  then show "fst (snd (getCachedSong codec db now sId p)) = ?db1" by simp
  from g show "contacted (snd (snd (getSongById codec spotify db now sId p)))"
    by (simp add: getSongById_contacted_iff)
  from g h show "fst (getSongById codec spotify db now sId p) = Inr fetched"
    by (elim conjE) (rule getSongById_miss [of codec db now sId p spotify t fetched], simp_all)
  have u: "Upsert \<notin> set (db_failing ?db1)" using h by simp
  have "fst (snd (getSongById codec spotify db now sId p)) = fst (cacheSong codec ?db1 fetched)"
    using g h by (simp add: getSongById_def Let_def split: prod.splits)
  with cacheSong_stores [OF u, of codec fetched]
  show "\<exists>stored. songCache (fst (snd (getSongById codec spotify db now sId p)))
                  (song_platform fetched, song_id fetched) = Some stored \<and>
                data stored = stringify codec fetched \<and>
                expiresAt stored = song_expiresAt fetched"
    by auto
qed

theorem getSongById_hit_iff_not_expired_witness:
  "FindUnique \<notin> set (db_failing db_one) \<and> Delete \<notin> set (db_failing db_one) \<and>
   Upsert \<notin> set (db_failing db_one) \<and>
   songCache db_one (''spotify'', ''s1'') = Some row1 \<and>
   (1000::int) \<le> expiresAt row1 \<and> parse id_codec (data row1) = Parsed song1 \<and>
   getSongById id_codec spotify_one db_one 1000 ''s1'' ''spotify'' =
     (Inr song1, db_one, [Log Debug ''Cache hit for song: s1'']) \<and>
   expiresAt row1 < 1001 \<and>
   fst (getSongById id_codec spotify_one db_one 1001 ''s1'' ''spotify'') =
     Inr (song1\<lparr>song_cachedAt := 2000, song_expiresAt := 2000 + 2592000000\<rparr>) \<and>
   contacted (snd (snd (getSongById id_codec spotify_one db_one 1001 ''s1'' ''spotify'')))"
proof -
  have h: "FindUnique \<notin> set (db_failing db_one)" "Delete \<notin> set (db_failing db_one)"
    "Upsert \<notin> set (db_failing db_one)" "songCache db_one (''spotify'', ''s1'') = Some row1"
    "(1000::int) \<le> expiresAt row1" "parse id_codec (data row1) = Parsed song1"
    "expiresAt row1 < 1001"
    by (simp_all add: db_one_def row1_def id_codec_def)
  have t: "getTrack spotify_one ''s1'' = Inr ''s1''"
    "convertToCachedSong spotify_one ''s1'' =
       Inr (song1\<lparr>song_cachedAt := 2000, song_expiresAt := 2000 + 2592000000\<rparr>)"
    by (simp_all add: spotify_one_def)
  note hit = getSongById_hit_iff_not_expired
    [where codec = id_codec and spotify = spotify_one and db = db_one and now = 1000
       and sId = "''s1''" and p = "''spotify''" and row = row1 and song = song1
       and t = "''s1''" and fetched = song1]
  note expired = getSongById_hit_iff_not_expired
    [where codec = id_codec and spotify = spotify_one and db = db_one and now = 1001
       and sId = "''s1''" and p = "''spotify''" and row = row1 and song = song1
       and t = "''s1''"
       and fetched = "song1\<lparr>song_cachedAt := 2000, song_expiresAt := 2000 + 2592000000\<rparr>"]
  have a: "getSongById id_codec spotify_one db_one 1000 ''s1'' ''spotify'' =
     (Inr song1, db_one, [Log Debug ''Cache hit for song: s1''])"
    using hit h by simp
  have b: "fst (getSongById id_codec spotify_one db_one 1001 ''s1'' ''spotify'') =
     Inr (song1\<lparr>song_cachedAt := 2000, song_expiresAt := 2000 + 2592000000\<rparr>) \<and>
   contacted (snd (snd (getSongById id_codec spotify_one db_one 1001 ''s1'' ''spotify'')))"
    using expired h t by simp
  from a b h show ?thesis by simp
qed

text \<open>
  The claim as stated asks for \<open>expiresAt > now\<close> and has a row with \<open>expiresAt \<le> now\<close> deleted.
  At \<open>expiresAt = now\<close> the source answers from the cache and keeps the row.
\<close>

theorem getSongById_hit_at_expiry_counterexample:
  "songCache db_one (''spotify'', ''s1'') = Some row1 \<and> \<not> expiresAt row1 > 1000 \<and>
   getSongById id_codec spotify_one db_one 1000 ''s1'' ''spotify'' =
     (Inr song1, db_one, [Log Debug ''Cache hit for song: s1'']) \<and>
   \<not> contacted [Log Debug ''Cache hit for song: s1'']"
  by (simp add: db_one_def row1_def getSongById_def getCachedSong_def findUnique_def
        id_codec_def contacted_def)

end
